theory Spec2Isabelle
  imports Complex_Main "HOL-Library.AList" "HOL-Library.Char_ord" "HOL-Library.Sublist"
begin

chapter \<open>Exely booking assistant: offer cache, reservation mapper, session handling\<close>

text \<open>
  A shallow embedding of the orchestration core of the repository:
  \<^verbatim>\<open>app/mcp_tools/tools.py\<close>, \<^verbatim>\<open>app/exely_client/client.py\<close>,
  \<^verbatim>\<open>app/llm_client/llm_client.py\<close> and \<^verbatim>\<open>telegram_bot.py\<close>.

  Conventions. Python dictionaries whose iteration order is observable are association
  lists updated with \<open>AList.update\<close> (a new key is appended, an existing key keeps its
  position, as in a Python dict); the two process-wide caches are maps. Pydantic models
  are records; record fields carry a short prefix because field names are global in
  HOL. An \<^verbatim>\<open>int\<close> field validated with \<^verbatim>\<open>ge=0\<close> is a \<open>nat\<close>. User-facing
  texts (Russian f-strings in the source) are values of datatypes that keep the
  interpolated data. Every raise and every early return of the source is a branch of
  the model. The configuration is the default one, \<^verbatim>\<open>DEBUG_MODE = False\<close>: the debug
  mode only adds log lines and diagnostic suffixes to messages. Log lines are left out,
  except the warning the mapper emits for differing child ages; so is the dialog
  history, which none of the modelled decisions reads.
\<close>

section \<open>Strings\<close>

text \<open>
  A Python \<^verbatim>\<open>str\<close> is modelled by its UTF-8 bytes. \<^verbatim>\<open>str.lower()\<close> is modelled on
  the ASCII letters and on the Cyrillic capitals (two bytes each, lead byte \<open>0xD0\<close>),
  the two alphabets of the texts this program compares.
\<close>

definition lower_char :: "char \<Rightarrow> char" where
  "lower_char c =
     (if CHR ''A'' \<le> c \<and> c \<le> CHR ''Z'' then char_of (of_char c + (32::nat)) else c)"

fun lower :: "string \<Rightarrow> string" where
  "lower [] = []"
| "lower [c] = [lower_char c]"
| "lower (c1 # c2 # cs) =
     (if c1 = CHR 0xD0 \<and> CHR 0x90 \<le> c2 \<and> c2 \<le> CHR 0x9F
      then CHR 0xD0 # char_of (of_char c2 + (32::nat)) # lower cs
      else if c1 = CHR 0xD0 \<and> CHR 0xA0 \<le> c2 \<and> c2 \<le> CHR 0xAF
      then CHR 0xD1 # char_of (of_char c2 - (32::nat)) # lower cs
      else if c1 = CHR 0xD0 \<and> CHR 0x80 \<le> c2 \<and> c2 \<le> CHR 0x8F
      then CHR 0xD1 # char_of (of_char c2 + (16::nat)) # lower cs
      else lower_char c1 # lower (c2 # cs))"

text \<open>\<^verbatim>\<open>needle in haystack\<close> for two strings.\<close>

definition str_contains :: "string \<Rightarrow> string \<Rightarrow> bool" where
  "str_contains needle haystack = sublist needle haystack"

text \<open>\<^verbatim>\<open>str.strip()\<close>: ASCII white space off both ends.\<close>

definition is_space :: "char \<Rightarrow> bool" where
  "is_space c = (c \<in> {CHR '' '', CHR 0x09, CHR 0x0A, CHR 0x0B, CHR 0x0C, CHR 0x0D})"

definition strip :: "string \<Rightarrow> string" where
  "strip s = rev (dropWhile is_space (rev (dropWhile is_space s)))"

section \<open>JSON values and Python dictionaries\<close>

text \<open>
  What \<^verbatim>\<open>json.loads\<close> returns. An object is an association list with distinct keys in
  insertion order. Floats do not occur in the values the modelled code inspects.
\<close>

datatype json =
    JNull
  | JBool bool
  | JInt int
  | JStr string
  | JList "json list"
  | JObj "(string \<times> json) list"

text \<open>Python truthiness (\<^verbatim>\<open>if x:\<close>, \<^verbatim>\<open>not x\<close>, \<^verbatim>\<open>x or y\<close>).\<close>

fun truthy :: "json \<Rightarrow> bool" where
  "truthy JNull = False"
| "truthy (JBool b) = b"
| "truthy (JInt i) = (i \<noteq> 0)"
| "truthy (JStr s) = (s \<noteq> [])"
| "truthy (JList xs) = (xs \<noteq> [])"
| "truthy (JObj d) = (d \<noteq> [])"

text \<open>\<^verbatim>\<open>d.get(k)\<close> with \<^verbatim>\<open>None\<close> for a missing key, and \<^verbatim>\<open>k in d\<close>.\<close>

definition dict_get :: "(string \<times> json) list \<Rightarrow> string \<Rightarrow> json" where
  "dict_get d k = (case map_of d k of None \<Rightarrow> JNull | Some v \<Rightarrow> v)"

definition has_key :: "(string \<times> json) list \<Rightarrow> string \<Rightarrow> bool" where
  "has_key d k = (map_of d k \<noteq> None)"

section \<open>Provider schemas (app/exely\_client/schemas.py)\<close>

text \<open>
  \<^verbatim>\<open>GuestCount\<close>: \<^verbatim>\<open>placement: GuestPlacementRef\<close> (its \<^verbatim>\<open>index: int\<close>),
  \<^verbatim>\<open>count: int (ge=0)\<close>, \<^verbatim>\<open>age: Optional[int] (ge=0)\<close>,
  \<^verbatim>\<open>age_qualifying_code: Optional[str]\<close>.
\<close>

record GuestCount =
  gc_placement_index :: int
  gc_count :: nat
  gc_age :: "nat option"
  gc_age_qualifying_code :: "string option"

text \<open>\<^verbatim>\<open>PlacementPrice\<close>: the fields the mapper reads.\<close>

record PlacementPrice =
  pp_index :: int
  pp_kind :: string
  pp_code :: string

record RoomTypeAvailabilityInfo =
  rt_placements :: "PlacementPrice list"
  rt_code :: string

text \<open>
  \<^verbatim>\<open>RoomStayAvailability\<close>, the cached Offer. \<open>rs_rate_plans\<close> holds the
  \<^verbatim>\<open>code\<close> of each rate plan, \<open>rs_placement_rates\<close> the
  \<^verbatim>\<open>rate_plan_code\<close> of each placement rate, \<open>rs_hotel_code\<close> is
  \<^verbatim>\<open>hotel_ref.code\<close>, \<open>rs_currency\<close> is \<^verbatim>\<open>total.currency\<close>, \<open>rs_guarantees\<close> the
  guarantee codes.
\<close>

record RoomStayAvailability =
  rs_hotel_code :: string
  rs_guests :: "GuestCount list"
  rs_room_types :: "RoomTypeAvailabilityInfo list"
  rs_rate_plans :: "string list"
  rs_placement_rates :: "string list"
  rs_stay_dates :: "string \<times> string"
  rs_currency :: string
  rs_guarantees :: "string list"

text \<open>The reservation request (\<^verbatim>\<open>hotel_reservation_2\<close>).\<close>

record RoomTypeReservationPlacement =
  rp_index :: nat
  rp_kind :: string
  rp_code :: string

text \<open>\<^verbatim>\<open>GuestCountDetailAPI\<close>: \<^verbatim>\<open>count: int (ge=1)\<close>; the constructor raises a
  \<^verbatim>\<open>ValidationError\<close> for a count of 0 (see \<open>build_guest_counts\<close>).\<close>

record GuestCountDetailAPI =
  gcd_count :: nat
  gcd_age_qualifying_code :: string
  gcd_placement_index :: nat
  gcd_age :: "nat option"

record GuestInfo =
  gi_first_name :: string
  gi_last_name :: string
  gi_middle_name :: "string option"
  gi_citizenship :: "string option"
  gi_placement_index :: nat

record CustomerReservation =
  cr_first_name :: string
  cr_last_name :: string
  cr_middle_name :: "string option"
  cr_comment :: string
  cr_confirm_sms :: bool
  cr_subscribe_email :: bool
  cr_phone :: string
  cr_email :: string

text \<open>
  \<^verbatim>\<open>HotelReservationRequest\<close> with its single \<^verbatim>\<open>HotelReservationRequestItem\<close>,
  single \<^verbatim>\<open>RoomStayReservation\<close>, single room type and single rate plan flattened
  into one record.
\<close>

record HotelReservationRequest =
  req_language :: string
  req_currency :: string
  req_hotel_code :: string
  req_stay_dates :: "string \<times> string"
  req_room_type_code :: string
  req_placements :: "RoomTypeReservationPlacement list"
  req_rate_plan_code :: string
  req_guest_counts :: "GuestCountDetailAPI list"
  req_guests :: "GuestInfo list"
  req_guarantee_code :: string
  req_success_url :: string
  req_decline_url :: string
  req_customer :: CustomerReservation
  req_pos_source_url :: string
  req_pos_integration_key :: string

section \<open>Tool schemas (app/mcp\_tools/schemas\_llm.py) and settings\<close>

record GuestDetailLLM =
  gd_first_name :: string
  gd_last_name :: string
  gd_middle_name :: "string option"
  gd_citizenship :: "string option"
  gd_is_child :: bool
  gd_age :: "int option"

record CustomerDetailLLM =
  cd_first_name :: string
  cd_last_name :: string
  cd_middle_name :: "string option"
  cd_email :: string
  cd_phone :: string
  cd_comment :: "string option"

record CreateReservationToolParams =
  crp_booking_option_id :: string
  crp_guests :: "GuestDetailLLM list"
  crp_customer :: CustomerDetailLLM
  crp_guarantee_code :: string
  crp_language :: "string option"

text \<open>The fields of \<^verbatim>\<open>app/config.py\<close> that the modelled code reads.\<close>

record Settings =
  DEFAULT_HOTEL_CODE :: string
  DEFAULT_LANGUAGE_LLM :: string
  DEFAULT_SUCCESS_URL :: string
  DEFAULT_DECLINE_URL :: string
  DEFAULT_POS_URL :: string
  DEFAULT_POS_INTEGRATION_KEY :: string
  DEFAULT_SUBSCRIBE_EMAIL :: bool

text \<open>
  The texts of \<^verbatim>\<open>CreateReservationResult.error_message\<close>, one constructor per
  message of \<^verbatim>\<open>create_exely_reservation_and_get_link\<close>, with the numbers the
  f-string interpolates.
\<close>

datatype reservation_error =
    InvalidOrExpiredOption
  | GuestCountMismatch nat nat
  | MissingPlacementData
  | EmptyGuestGroups
  | UnmatchedGuestGroup int
  | SlotAssignmentInternalError nat nat
  | MissingRoomTypesOrRatePlans
  | ApiIssue
  | ApiRejected "json option"
  | ResponseErrors "string option"
  | UnexpectedResponse

text \<open>Exceptions that leave a function instead of a result.\<close>

datatype py_exception = ValidationError | KeyError | TypeError | AttributeError | ValueError

record CreateReservationResult =
  res_booking_number :: string
  res_status :: string
  res_cancellation_code :: string
  res_payment_url :: "string option"
  res_order_url :: "string option"
  res_error_message :: "reservation_error option"

definition error_result :: "reservation_error \<Rightarrow> CreateReservationResult" where
  "error_result e =
     \<lparr>res_booking_number = [], res_status = ''error'', res_cancellation_code = [],
      res_payment_url = None, res_order_url = None, res_error_message = Some e\<rparr>"

text \<open>The one log line the claims speak of: the warning of line 425.\<close>

datatype log_event = MultipleChildAgesWarning nat "nat list" nat

section \<open>The availability-to-reservation mapper (tools.py, lines 375--477)\<close>

subsection \<open>Guest-count reconciliation\<close>

text \<open>\<^verbatim>\<open>sum(gc.count for gc in selected_option_data.guests) if selected_option_data.guests else 0\<close>\<close>

definition total_guest_capacity :: "RoomStayAvailability \<Rightarrow> nat" where
  "total_guest_capacity offer = sum_list (map gc_count (rs_guests offer))"

subsection \<open>Placement re-indexing (lines 387--397)\<close>

text \<open>
  The loop over \<^verbatim>\<open>room_types[0].placements\<close>: the accumulator is
  \<^verbatim>\<open>reservation_rt_placements\<close>, the dictionary
  \<^verbatim>\<open>original_placement_code_to_reservation_idx_map\<close> and
  \<^verbatim>\<open>next_reservation_placement_index\<close>.
\<close>

fun reindex_loop ::
  "PlacementPrice list \<Rightarrow> nat \<Rightarrow> RoomTypeReservationPlacement list \<Rightarrow> (string \<times> nat) list
    \<Rightarrow> RoomTypeReservationPlacement list \<times> (string \<times> nat) list" where
  "reindex_loop [] next_idx rps cmap = (rps, cmap)"
| "reindex_loop (pp # pps) next_idx rps cmap =
     reindex_loop pps (next_idx + 1)
       (rps @ [\<lparr>rp_index = next_idx, rp_kind = pp_kind pp, rp_code = pp_code pp\<rparr>])
       (AList.update (pp_code pp) next_idx cmap)"

definition reindex_placements ::
  "PlacementPrice list \<Rightarrow> RoomTypeReservationPlacement list \<times> (string \<times> nat) list" where
  "reindex_placements pls = reindex_loop pls 1 [] []"

subsection \<open>Guest-group aggregation (lines 399--417)\<close>

record agg_entry =
  ag_count :: nat
  ag_age_qualifying_code :: string
  ag_ages_list :: "nat list"

text \<open>\<^verbatim>\<open>gc.age_qualifying_code or ("child" if gc.age is not None else "adult")\<close>:
  \<^verbatim>\<open>None\<close> and the empty string are both falsy.\<close>

definition age_q_code_of :: "GuestCount \<Rightarrow> string" where
  "age_q_code_of gc =
     (case gc_age_qualifying_code gc of
        Some c \<Rightarrow> if c \<noteq> [] then c else (if gc_age gc \<noteq> None then ''child'' else ''adult'')
      | None \<Rightarrow> (if gc_age gc \<noteq> None then ''child'' else ''adult''))"

definition is_child_code :: "string \<Rightarrow> bool" where
  "is_child_code c = str_contains ''child'' (lower c)"

text \<open>\<^verbatim>\<open>[gc.age] * gc.count\<close> when the age is set.\<close>

definition ages_of_group :: "GuestCount \<Rightarrow> nat list" where
  "ages_of_group gc = (case gc_age gc of None \<Rightarrow> [] | Some a \<Rightarrow> replicate (gc_count gc) a)"

text \<open>One pass of the loop body for a group already matched to \<open>res_idx\<close>.\<close>

definition aggregate_step ::
  "nat \<Rightarrow> GuestCount \<Rightarrow> (nat \<times> agg_entry) list \<Rightarrow> (nat \<times> agg_entry) list" where
  "aggregate_step res_idx gc m =
     (let age_q_code = age_q_code_of gc;
          e0 = (case map_of m res_idx of
                  None \<Rightarrow> \<lparr>ag_count = 0, ag_age_qualifying_code = age_q_code, ag_ages_list = []\<rparr>
                | Some e \<Rightarrow> e);
          e1 = e0\<lparr>ag_count := ag_count e0 + gc_count gc,
                  ag_ages_list := ag_ages_list e0 @ ages_of_group gc\<rparr>;
          e2 = (if ag_age_qualifying_code e1 \<noteq> age_q_code
                   \<and> \<not> is_child_code (ag_age_qualifying_code e1)
                then e1\<lparr>ag_age_qualifying_code := age_q_code\<rparr> else e1)
      in AList.update res_idx e2 m)"

text \<open>
  \<^verbatim>\<open>next((pp for pp in placements if pp.index == gc.placement.index), None)\<close> followed
  by the dictionary read \<^verbatim>\<open>original_placement_code_to_reservation_idx_map[pp.code]\<close>.
\<close>

definition reservation_idx_for ::
  "PlacementPrice list \<Rightarrow> (string \<times> nat) list \<Rightarrow> GuestCount \<Rightarrow> (reservation_error + py_exception) + nat" where
  "reservation_idx_for pls cmap gc =
     (case find (\<lambda>pp. pp_index pp = gc_placement_index gc) pls of
        None \<Rightarrow> Inl (Inl (UnmatchedGuestGroup (gc_placement_index gc)))
      | Some target \<Rightarrow>
          (case map_of cmap (pp_code target) of
             None \<Rightarrow> Inl (Inr KeyError)
           | Some res_idx \<Rightarrow> Inr res_idx))"

fun aggregate_loop ::
  "PlacementPrice list \<Rightarrow> (string \<times> nat) list \<Rightarrow> GuestCount list \<Rightarrow> (nat \<times> agg_entry) list
    \<Rightarrow> (reservation_error + py_exception) + (nat \<times> agg_entry) list" where
  "aggregate_loop pls cmap [] m = Inr m"
| "aggregate_loop pls cmap (gc # gcs) m =
     (case reservation_idx_for pls cmap gc of
        Inl e \<Rightarrow> Inl e
      | Inr res_idx \<Rightarrow> aggregate_loop pls cmap gcs (aggregate_step res_idx gc m))"

subsection \<open>Reservation guest counts (lines 419--429)\<close>

definition age_to_send :: "agg_entry \<Rightarrow> nat option" where
  "age_to_send e =
     (if is_child_code (ag_age_qualifying_code e) \<and> ag_ages_list e \<noteq> []
      then Some (hd (ag_ages_list e)) else None)"

definition age_warning :: "nat \<Rightarrow> agg_entry \<Rightarrow> log_event list" where
  "age_warning res_idx e =
     (if is_child_code (ag_age_qualifying_code e) \<and> ag_ages_list e \<noteq> []
         \<and> card (set (ag_ages_list e)) \<noteq> 1
      then [MultipleChildAgesWarning res_idx (ag_ages_list e) (hd (ag_ages_list e))] else [])"

text \<open>\<^verbatim>\<open>ExelyGuestCountDetailAPI(count=..., age_qualifying_code=..., placement_index=res_idx, age=age_to_send_api)\<close>\<close>

definition guest_count_detail :: "nat \<Rightarrow> agg_entry \<Rightarrow> GuestCountDetailAPI" where
  "guest_count_detail res_idx e =
     \<lparr>gcd_count = ag_count e,
      gcd_age_qualifying_code = ag_age_qualifying_code e,
      gcd_placement_index = res_idx,
      gcd_age = age_to_send e\<rparr>"

text \<open>
  The loop over \<^verbatim>\<open>reservation_guest_counts_map.items()\<close>. The warning is logged
  before \<^verbatim>\<open>ExelyGuestCountDetailAPI\<close> is constructed; the constructor raises for a
  count below 1 (\<^verbatim>\<open>ge=1\<close>), and nothing in the function catches it.
\<close>

fun build_guest_counts ::
  "(nat \<times> agg_entry) list \<Rightarrow> log_event list \<Rightarrow> GuestCountDetailAPI list
    \<Rightarrow> log_event list \<times> (py_exception + GuestCountDetailAPI list)" where
  "build_guest_counts [] logs acc = (logs, Inr acc)"
| "build_guest_counts ((res_idx, e) # rest) logs acc =
     (if ag_count e < 1 then (logs @ age_warning res_idx e, Inl ValidationError)
      else build_guest_counts rest (logs @ age_warning res_idx e)
             (acc @ [guest_count_detail res_idx e]))"

subsection \<open>Guest-to-slot assignment (lines 431--447)\<close>

text \<open>\<^verbatim>\<open>next((rgc.count for rgc in guest_counts if rgc.placement_index == idx), 0)\<close>\<close>

definition num_guests_for_slot :: "GuestCountDetailAPI list \<Rightarrow> nat \<Rightarrow> nat" where
  "num_guests_for_slot gcs idx =
     (case find (\<lambda>rgc. gcd_placement_index rgc = idx) gcs of
        None \<Rightarrow> 0 | Some rgc \<Rightarrow> gcd_count rgc)"

definition guest_assignment_slots ::
  "RoomTypeReservationPlacement list \<Rightarrow> GuestCountDetailAPI list \<Rightarrow> nat list" where
  "guest_assignment_slots rps gcs =
     concat (map (\<lambda>rtp. replicate (num_guests_for_slot gcs (rp_index rtp)) (rp_index rtp)) rps)"

definition bind_guest :: "GuestDetailLLM \<Rightarrow> nat \<Rightarrow> GuestInfo" where
  "bind_guest g slot =
     \<lparr>gi_first_name = gd_first_name g, gi_last_name = gd_last_name g,
      gi_middle_name = gd_middle_name g, gi_citizenship = gd_citizenship g,
      gi_placement_index = slot\<rparr>"

subsection \<open>The mapper as a whole\<close>

text \<open>
  Lines 387--429: re-indexing, aggregation and the reservation guest counts of an Offer.
  The result carries the warnings logged so far, and either the error result or
  exception that ends the call, or the new placements together with the code-to-index
  dictionary and the reservation guest counts.
\<close>

definition map_placements_and_counts ::
  "RoomStayAvailability \<Rightarrow>
     log_event list \<times>
     ((reservation_error + py_exception) +
      RoomTypeReservationPlacement list \<times> (string \<times> nat) list \<times> GuestCountDetailAPI list)" where
  "map_placements_and_counts offer =
     (case rs_room_types offer of
        [] \<Rightarrow> ([], Inl (Inl MissingPlacementData))
      | rt0 # _ \<Rightarrow>
          if rt_placements rt0 = [] then ([], Inl (Inl MissingPlacementData))
          else
            (case reindex_placements (rt_placements rt0) of
               (rps, cmap) \<Rightarrow>
                 if rs_guests offer = [] then ([], Inl (Inl EmptyGuestGroups))
                 else
                   (case aggregate_loop (rt_placements rt0) cmap (rs_guests offer) [] of
                      Inl e \<Rightarrow> ([], Inl e)
                    | Inr m \<Rightarrow>
                        (case build_guest_counts m [] [] of
                           (logs, Inl ex) \<Rightarrow> (logs, Inl (Inr ex))
                         | (logs, Inr gcs) \<Rightarrow> (logs, Inr (rps, cmap, gcs))))))"

text \<open>
  Lines 375--477: from the cached Offer and the tool parameters to the reservation
  request. \<^verbatim>\<open>RoomStayReservation\<close> requires a non-empty \<^verbatim>\<open>guests\<close> list
  (\<^verbatim>\<open>min_length=1\<close>), so an empty one raises there.
\<close>

definition build_reservation_request ::
  "Settings \<Rightarrow> RoomStayAvailability \<Rightarrow> CreateReservationToolParams \<Rightarrow>
     log_event list \<times> ((reservation_error + py_exception) + HotelReservationRequest)" where
  "build_reservation_request cfg offer params =
     (let total_guests_from_llm_params = length (crp_guests params);
          total_guest_capacity_from_cache = total_guest_capacity offer
      in
      if total_guests_from_llm_params \<noteq> total_guest_capacity_from_cache
      then ([], Inl (Inl (GuestCountMismatch total_guest_capacity_from_cache
                            total_guests_from_llm_params)))
      else
        (case map_placements_and_counts offer of
           (logs, Inl e) \<Rightarrow> (logs, Inl e)
         | (logs, Inr (rps, cmap, gcs)) \<Rightarrow>
             (let slots = guest_assignment_slots rps gcs in
              if length slots \<noteq> total_guests_from_llm_params
              then (logs, Inl (Inl (SlotAssignmentInternalError (length slots)
                                      total_guests_from_llm_params)))
              else
                (case (rs_room_types offer, rs_rate_plans offer) of
                   ([], _) \<Rightarrow> (logs, Inl (Inl MissingRoomTypesOrRatePlans))
                 | (_, []) \<Rightarrow> (logs, Inl (Inl MissingRoomTypesOrRatePlans))
                 | (rt0 # _, rate_plan0 # _) \<Rightarrow>
                     if crp_guests params = [] then (logs, Inl (Inr ValidationError))
                     else
                       (logs, Inr
                         \<lparr>req_language =
                            (case crp_language params of
                               None \<Rightarrow> DEFAULT_LANGUAGE_LLM cfg
                             | Some l \<Rightarrow> if l = [] then DEFAULT_LANGUAGE_LLM cfg else l),
                          req_currency = rs_currency offer,
                          req_hotel_code = rs_hotel_code offer,
                          req_stay_dates = rs_stay_dates offer,
                          req_room_type_code = rt_code rt0,
                          req_placements = rps,
                          req_rate_plan_code = rate_plan0,
                          req_guest_counts = gcs,
                          req_guests = map2 bind_guest (crp_guests params) slots,
                          req_guarantee_code = crp_guarantee_code params,
                          req_success_url = DEFAULT_SUCCESS_URL cfg,
                          req_decline_url = DEFAULT_DECLINE_URL cfg,
                          req_customer =
                            \<lparr>cr_first_name = cd_first_name (crp_customer params),
                             cr_last_name = cd_last_name (crp_customer params),
                             cr_middle_name = cd_middle_name (crp_customer params),
                             cr_comment =
                               (case cd_comment (crp_customer params) of
                                  None \<Rightarrow> [] | Some c \<Rightarrow> c),
                             cr_confirm_sms = False,
                             cr_subscribe_email = DEFAULT_SUBSCRIBE_EMAIL cfg,
                             cr_phone = cd_phone (crp_customer params),
                             cr_email = cd_email (crp_customer params)\<rparr>,
                          req_pos_source_url = DEFAULT_POS_URL cfg,
                          req_pos_integration_key = DEFAULT_POS_INTEGRATION_KEY cfg\<rparr>)))))"

subsection \<open>Vocabulary for statements about the mapper\<close>

text \<open>
  The placements of the Offer's first room type (none when there is no room type), the
  code-to-index dictionary the re-indexing builds from them, and the new index the
  aggregation loop finds for a guest-count group.
\<close>

definition offer_placements :: "RoomStayAvailability \<Rightarrow> PlacementPrice list" where
  "offer_placements offer =
     (case rs_room_types offer of [] \<Rightarrow> [] | rt0 # _ \<Rightarrow> rt_placements rt0)"

definition offer_code_map :: "RoomStayAvailability \<Rightarrow> (string \<times> nat) list" where
  "offer_code_map offer = snd (reindex_placements (offer_placements offer))"

definition new_index_of :: "RoomStayAvailability \<Rightarrow> GuestCount \<Rightarrow> nat option" where
  "new_index_of offer gc =
     (case reservation_idx_for (offer_placements offer) (offer_code_map offer) gc of
        Inl _ \<Rightarrow> None | Inr i \<Rightarrow> Some i)"

text \<open>The guest-count groups of the Offer that fall under new index \<open>i\<close>, in the
  Offer's order, their summed count and their ages in encounter order.\<close>

definition groups_under :: "RoomStayAvailability \<Rightarrow> nat \<Rightarrow> GuestCount list" where
  "groups_under offer i = filter (\<lambda>gc. new_index_of offer gc = Some i) (rs_guests offer)"

definition aggregated_count :: "RoomStayAvailability \<Rightarrow> nat \<Rightarrow> nat" where
  "aggregated_count offer i = sum_list (map gc_count (groups_under offer i))"

definition aggregated_ages :: "RoomStayAvailability \<Rightarrow> nat \<Rightarrow> nat list" where
  "aggregated_ages offer i = concat (map ages_of_group (groups_under offer i))"


subsection \<open>Reading the aggregation dictionary\<close>

text \<open>The groups that the aggregation loop files under new index \<open>i\<close>, for any
  placements, dictionary and group list; the guest count, the ages and the child
  qualification stored under \<open>i\<close> in the dictionary of the loop.\<close>

abbreviation groups_for ::
  "PlacementPrice list \<Rightarrow> (string \<times> nat) list \<Rightarrow> GuestCount list \<Rightarrow> nat \<Rightarrow> GuestCount list" where
  "groups_for pls cmap gcs i \<equiv> filter (\<lambda>gc. reservation_idx_for pls cmap gc = Inr i) gcs"

definition count_of :: "(nat \<times> agg_entry) list \<Rightarrow> nat \<Rightarrow> nat" where
  "count_of m i = (case map_of m i of None \<Rightarrow> 0 | Some e \<Rightarrow> ag_count e)"

definition ages_in :: "(nat \<times> agg_entry) list \<Rightarrow> nat \<Rightarrow> nat list" where
  "ages_in m i = (case map_of m i of None \<Rightarrow> [] | Some e \<Rightarrow> ag_ages_list e)"

definition child_at :: "(nat \<times> agg_entry) list \<Rightarrow> nat \<Rightarrow> bool" where
  "child_at m i =
     (case map_of m i of None \<Rightarrow> False | Some e \<Rightarrow> is_child_code (ag_age_qualifying_code e))"


section \<open>The provider client (app/exely\_client/client.py)\<close>

text \<open>
  The message of an \<^verbatim>\<open>ExelyApiException\<close>, one constructor per f-string. The last
  handler of \<^verbatim>\<open>_request\<close> wraps whatever reached it (\<^verbatim>\<open>str(e)\<close>), which includes the
  exception raised two lines above it for a body that is not JSON.
\<close>

datatype unexpected_cause = NotValidJson int | OtherCause

datatype exely_message =
    StatusFailed int
  | NetworkRequestFailed
  | RequestPreparationTypeError
  | UnexpectedError unexpected_cause
  | ApplicationErrors "json option" "json option"
  | ResponseValidationFailed

record ExelyApiException =
  exc_status_code :: "int option"
  exc_error_response :: "json option"
  exc_message :: exely_message

text \<open>What a client method can raise: the normalised kind, or a Python exception that
  no handler of the client catches.\<close>

datatype client_exception = ExelyApiExc ExelyApiException | PyExc py_exception






text \<open>
  Validated responses. \<^verbatim>\<open>model_validate\<close> is Pydantic's; the client methods take it
  as a parameter that either yields the model or fails.
\<close>

record ErrorDetail =
  ed_error_code :: string
  ed_message :: string


record HotelReservationResponseItem =
  hri_number :: string
  hri_status :: string
  hri_cancellation_code :: string
  hri_guarantee_payment_urls :: "string option list"
  hri_order_url :: "string option"

record HotelReservationResponse =
  hrr_hotel_reservations :: "HotelReservationResponseItem list option"
  hrr_errors :: "ErrorDetail list option"

record CancelledHotelReservationItem =
  chi_number :: string
  chi_status :: string

record CancelReservationResponsePayload =
  crr_hotel_reservations :: "CancelledHotelReservationItem list option"
  crr_errors :: "ErrorDetail list option"









section \<open>The reservation tool (tools.py, lines 364--514)\<close>

text \<open>\<^verbatim>\<open>BOOKING_OPTIONS_CACHE: Dict[str, RoomStayAvailability]\<close>, the Offer Cache.\<close>

type_synonym offer_cache = "string \<rightharpoonup> RoomStayAvailability"

text \<open>Lines 486--492: the first API error message quoted to the user after a 400.\<close>

definition first_api_error_message :: "json option \<Rightarrow> json option" where
  "first_api_error_message error_response =
     (case error_response of
        Some (JObj d) \<Rightarrow>
          (case dict_get d ''errors'' of
             JList (JObj fe # _) \<Rightarrow>
               (if truthy (dict_get fe ''message'') then Some (dict_get fe ''message'') else None)
           | _ \<Rightarrow> None)
      | _ \<Rightarrow> None)"

text \<open>Lines 497--514: the result for a response of the provider.\<close>

definition result_of_response :: "HotelReservationResponse \<Rightarrow> CreateReservationResult" where
  "result_of_response response =
     (case hrr_errors response of
        Some (first_error_obj # _) \<Rightarrow>
          error_result (ResponseErrors
            (if ed_message first_error_obj \<noteq> [] then Some (ed_message first_error_obj) else None))
      | _ \<Rightarrow>
          (case hrr_hotel_reservations response of
             Some (reservation_details # _) \<Rightarrow>
               \<lparr>res_booking_number = hri_number reservation_details,
                res_status = hri_status reservation_details,
                res_cancellation_code = hri_cancellation_code reservation_details,
                res_payment_url =
                  (case hri_guarantee_payment_urls reservation_details of
                     Some u # _ \<Rightarrow> (if u \<noteq> [] then Some u else None)
                   | _ \<Rightarrow> None),
                res_order_url = hri_order_url reservation_details,
                res_error_message = None\<rparr>
           | _ \<Rightarrow>
               \<lparr>res_booking_number = [], res_status = ''error_unexpected_response'',
                res_cancellation_code = [], res_payment_url = None, res_order_url = None,
                res_error_message = Some UnexpectedResponse\<rparr>))"

text \<open>
  What one call leaves behind: the value returned or the exception raised, the warnings
  logged, the request handed to \<^verbatim>\<open>client.create_hotel_reservation\<close> (if the call got
  that far) and the Offer Cache after the call.
\<close>

record reservation_outcome =
  ro_result :: "py_exception + CreateReservationResult"
  ro_logs :: "log_event list"
  ro_sent :: "HotelReservationRequest option"
  ro_cache :: offer_cache

text \<open>
  \<^verbatim>\<open>create_exely_reservation_and_get_link\<close>. \<open>reserve\<close> is
  \<^verbatim>\<open>client.create_hotel_reservation\<close>. The function only reads the cache
  (\<^verbatim>\<open>BOOKING_OPTIONS_CACHE.get\<close>).
\<close>

definition create_exely_reservation_and_get_link ::
  "Settings \<Rightarrow> (HotelReservationRequest \<Rightarrow> client_exception + HotelReservationResponse)
     \<Rightarrow> offer_cache \<Rightarrow> CreateReservationToolParams \<Rightarrow> reservation_outcome" where
  "create_exely_reservation_and_get_link cfg reserve cache params =
     (case cache (crp_booking_option_id params) of
        None \<Rightarrow>
          \<lparr>ro_result = Inr (error_result InvalidOrExpiredOption), ro_logs = [],
           ro_sent = None, ro_cache = cache\<rparr>
      | Some selected_option_data \<Rightarrow>
          (case build_reservation_request cfg selected_option_data params of
             (logs, Inl (Inl e)) \<Rightarrow>
               \<lparr>ro_result = Inr (error_result e), ro_logs = logs,
                ro_sent = None, ro_cache = cache\<rparr>
           | (logs, Inl (Inr ex)) \<Rightarrow>
               \<lparr>ro_result = Inl ex, ro_logs = logs, ro_sent = None, ro_cache = cache\<rparr>
           | (logs, Inr reservation_request_payload) \<Rightarrow>
               (case reserve reservation_request_payload of
                  Inl (ExelyApiExc e) \<Rightarrow>
                    \<lparr>ro_result =
                       Inr (error_result
                         (if exc_status_code e = Some 400
                          then ApiRejected (first_api_error_message (exc_error_response e))
                          else ApiIssue)),
                     ro_logs = logs, ro_sent = Some reservation_request_payload,
                     ro_cache = cache\<rparr>
                | Inl (PyExc ex) \<Rightarrow>
                    \<lparr>ro_result = Inl ex, ro_logs = logs,
                     ro_sent = Some reservation_request_payload, ro_cache = cache\<rparr>
                | Inr response \<Rightarrow>
                    \<lparr>ro_result = Inr (result_of_response response), ro_logs = logs,
                     ro_sent = Some reservation_request_payload, ro_cache = cache\<rparr>)))"

section \<open>The search tool: filtering and caching offers (tools.py, lines 224--362)\<close>










section \<open>The hotel metadata cache (tools.py, lines 52--101)\<close>






section \<open>Texts the program compares or puts into a directive\<close>

text \<open>Russian texts of the source, as their UTF-8 bytes.\<close>

text \<open>telegram\_bot.py, line 330: the first phrase looked for in an orchestrator error message (service overloaded).\<close>

definition phrase_service_overloaded :: string where
  "phrase_service_overloaded =
    [CHR 0xD1, CHR 0x81, CHR 0xD0, CHR 0xB5, CHR 0xD1, CHR 0x80, CHR 0xD0, CHR 0xB2,
     CHR 0xD0, CHR 0xB8, CHR 0xD1, CHR 0x81, CHR '' '', CHR 0xD0, CHR 0xBF, CHR 0xD0,
     CHR 0xB5, CHR 0xD1, CHR 0x80, CHR 0xD0, CHR 0xB5, CHR 0xD0, CHR 0xB3, CHR 0xD1,
     CHR 0x80, CHR 0xD1, CHR 0x83, CHR 0xD0, CHR 0xB6, CHR 0xD0, CHR 0xB5, CHR 0xD0,
     CHR 0xBD]"

text \<open>telegram\_bot.py, line 330: the second phrase (try later).\<close>

definition phrase_try_later :: string where
  "phrase_try_later =
    [CHR 0xD0, CHR 0xBF, CHR 0xD0, CHR 0xBE, CHR 0xD0, CHR 0xBF, CHR 0xD1, CHR 0x80,
     CHR 0xD0, CHR 0xBE, CHR 0xD0, CHR 0xB1, CHR 0xD1, CHR 0x83, CHR 0xD0, CHR 0xB9,
     CHR 0xD1, CHR 0x82, CHR 0xD0, CHR 0xB5, CHR '' '', CHR 0xD0, CHR 0xBF, CHR 0xD0,
     CHR 0xBE, CHR 0xD0, CHR 0xB7, CHR 0xD0, CHR 0xB6, CHR 0xD0, CHR 0xB5]"

text \<open>telegram\_bot.py, line 347: the marker of a meta-instruction in a clarification.\<close>

definition phrase_meta_answer :: string where
  "phrase_meta_answer =
    [CHR 0xD0, CHR 0xBE, CHR 0xD1, CHR 0x82, CHR 0xD0, CHR 0xB2, CHR 0xD0, CHR 0xB5,
     CHR 0xD1, CHR 0x82, CHR '' '', CHR 0xD0, CHR 0xBD, CHR 0xD0, CHR 0xB0, CHR '' '',
     CHR 0xD0, CHR 0xB2, CHR 0xD0, CHR 0xBE, CHR 0xD0, CHR 0xBF, CHR 0xD1, CHR 0x80,
     CHR 0xD0, CHR 0xBE, CHR 0xD1, CHR 0x81, CHR '' '', CHR 0xD0, CHR 0xBD, CHR 0xD0,
     CHR 0xB0, CHR '' '', CHR 0xD0, CHR 0xBE, CHR 0xD1, CHR 0x81, CHR 0xD0, CHR 0xBD,
     CHR 0xD0, CHR 0xBE, CHR 0xD0, CHR 0xB2, CHR 0xD0, CHR 0xB5, CHR '' '', CHR 0x27,
     CHR ''d'', CHR ''e'', CHR ''s'', CHR ''c'', CHR ''r'', CHR ''i'', CHR ''p'',
     CHR ''t'', CHR ''i'', CHR ''o'', CHR ''n'', CHR 0x27]"

text \<open>telegram\_bot.py, line 377: the start of the hotel greeting.\<close>

definition phrase_greeting :: string where
  "phrase_greeting =
    [CHR 0xD0, CHR 0x9F, CHR 0xD1, CHR 0x80, CHR 0xD0, CHR 0xB8, CHR 0xD0, CHR 0xB2,
     CHR 0xD0, CHR 0xB5, CHR 0xD1, CHR 0x82, CHR ''!'', CHR '' '', CHR 0xD0, CHR 0xAF,
     CHR '' '', CHR 0xD0, CHR 0xB2, CHR 0xD0, CHR 0xB0, CHR 0xD1, CHR 0x88, CHR '' '',
     CHR 0xD0, CHR 0xB0, CHR 0xD1, CHR 0x81, CHR 0xD1, CHR 0x81, CHR 0xD0, CHR 0xB8,
     CHR 0xD1, CHR 0x81, CHR 0xD1, CHR 0x82, CHR 0xD0, CHR 0xB5, CHR 0xD0, CHR 0xBD,
     CHR 0xD1, CHR 0x82, CHR '' '', CHR 0xD0, CHR 0xBF, CHR 0xD0, CHR 0xBE, CHR '' '',
     CHR 0xD0, CHR 0xBE, CHR 0xD1, CHR 0x82, CHR 0xD0, CHR 0xB5, CHR 0xD0, CHR 0xBB,
     CHR 0xD1, CHR 0x8E]"

text \<open>telegram\_bot.py, lines 594--598: the placeholder for a date that is not set.\<close>

definition text_not_specified :: string where
  "text_not_specified =
    [CHR 0xD0, CHR 0xBD, CHR 0xD0, CHR 0xB5, CHR '' '', CHR 0xD1, CHR 0x83, CHR 0xD0,
     CHR 0xBA, CHR 0xD0, CHR 0xB0, CHR 0xD0, CHR 0xB7, CHR 0xD0, CHR 0xB0, CHR 0xD0,
     CHR 0xBD, CHR 0xD0, CHR 0xB0]"

text \<open>tools.py, line 728: the clarification for an empty interpreter response.\<close>

definition text_internal_error :: string where
  "text_internal_error =
    [CHR 0xD0, CHR 0x9F, CHR 0xD1, CHR 0x80, CHR 0xD0, CHR 0xBE, CHR 0xD0, CHR 0xB8,
     CHR 0xD0, CHR 0xB7, CHR 0xD0, CHR 0xBE, CHR 0xD1, CHR 0x88, CHR 0xD0, CHR 0xBB,
     CHR 0xD0, CHR 0xB0, CHR '' '', CHR 0xD0, CHR 0xB2, CHR 0xD0, CHR 0xBD, CHR 0xD1,
     CHR 0x83, CHR 0xD1, CHR 0x82, CHR 0xD1, CHR 0x80, CHR 0xD0, CHR 0xB5, CHR 0xD0,
     CHR 0xBD, CHR 0xD0, CHR 0xBD, CHR 0xD1, CHR 0x8F, CHR 0xD1, CHR 0x8F, CHR '' '',
     CHR 0xD0, CHR 0xBE, CHR 0xD1, CHR 0x88, CHR 0xD0, CHR 0xB8, CHR 0xD0, CHR 0xB1,
     CHR 0xD0, CHR 0xBA, CHR 0xD0, CHR 0xB0, CHR ''.'', CHR '' '', CHR 0xD0, CHR 0x9F,
     CHR 0xD0, CHR 0xBE, CHR 0xD0, CHR 0xB6, CHR 0xD0, CHR 0xB0, CHR 0xD0, CHR 0xBB,
     CHR 0xD1, CHR 0x83, CHR 0xD0, CHR 0xB9, CHR 0xD1, CHR 0x81, CHR 0xD1, CHR 0x82,
     CHR 0xD0, CHR 0xB0, CHR '','', CHR '' '', CHR 0xD0, CHR 0xBF, CHR 0xD0, CHR 0xBE,
     CHR 0xD0, CHR 0xBF, CHR 0xD1, CHR 0x80, CHR 0xD0, CHR 0xBE, CHR 0xD0, CHR 0xB1,
     CHR 0xD1, CHR 0x83, CHR 0xD0, CHR 0xB9, CHR 0xD1, CHR 0x82, CHR 0xD0, CHR 0xB5,
     CHR '' '', CHR 0xD0, CHR 0xBF, CHR 0xD0, CHR 0xBE, CHR 0xD0, CHR 0xB7, CHR 0xD0,
     CHR 0xB6, CHR 0xD0, CHR 0xB5, CHR ''.'']"

text \<open>tools.py, line 734: the default error message.\<close>

definition text_llm_no_answer :: string where
  "text_llm_no_answer =
    [CHR ''L'', CHR ''L'', CHR ''M'', CHR '' '', CHR 0xD0, CHR 0xBD, CHR 0xD0, CHR 0xB5,
     CHR '' '', CHR 0xD0, CHR 0xBE, CHR 0xD1, CHR 0x82, CHR 0xD0, CHR 0xB2, CHR 0xD0,
     CHR 0xB5, CHR 0xD1, CHR 0x82, CHR 0xD0, CHR 0xB8, CHR 0xD0, CHR 0xBB, CHR '' '',
     CHR 0xD0, CHR 0xB8, CHR 0xD0, CHR 0xBB, CHR 0xD0, CHR 0xB8, CHR '' '', CHR 0xD0,
     CHR 0xBF, CHR 0xD1, CHR 0x80, CHR 0xD0, CHR 0xBE, CHR 0xD0, CHR 0xB8, CHR 0xD0,
     CHR 0xB7, CHR 0xD0, CHR 0xBE, CHR 0xD1, CHR 0x88, CHR 0xD0, CHR 0xBB, CHR 0xD0,
     CHR 0xB0, CHR '' '', CHR 0xD0, CHR 0xBE, CHR 0xD1, CHR 0x88, CHR 0xD0, CHR 0xB8,
     CHR 0xD0, CHR 0xB1, CHR 0xD0, CHR 0xBA, CHR 0xD0, CHR 0xB0, CHR ''.'']"

text \<open>tools.py, line 755 (no debug details).\<close>

definition text_unexpected_llm_response :: string where
  "text_unexpected_llm_response =
    [CHR 0xD0, CHR 0xAF, CHR '' '', CHR 0xD0, CHR 0xBF, CHR 0xD0, CHR 0xBE, CHR 0xD0,
     CHR 0xBB, CHR 0xD1, CHR 0x83, CHR 0xD1, CHR 0x87, CHR 0xD0, CHR 0xB8, CHR 0xD0,
     CHR 0xBB, CHR '' '', CHR 0xD0, CHR 0xBD, CHR 0xD0, CHR 0xB5, CHR 0xD0, CHR 0xBE,
     CHR 0xD0, CHR 0xB6, CHR 0xD0, CHR 0xB8, CHR 0xD0, CHR 0xB4, CHR 0xD0, CHR 0xB0,
     CHR 0xD0, CHR 0xBD, CHR 0xD0, CHR 0xBD, CHR 0xD1, CHR 0x8B, CHR 0xD0, CHR 0xB9,
     CHR '' '', CHR 0xD0, CHR 0xBE, CHR 0xD1, CHR 0x82, CHR 0xD0, CHR 0xB2, CHR 0xD0,
     CHR 0xB5, CHR 0xD1, CHR 0x82, CHR '' '', CHR 0xD0, CHR 0xBE, CHR 0xD1, CHR 0x82,
     CHR '' '', CHR 0xD1, CHR 0x8F, CHR 0xD0, CHR 0xB7, CHR 0xD1, CHR 0x8B, CHR 0xD0,
     CHR 0xBA, CHR 0xD0, CHR 0xBE, CHR 0xD0, CHR 0xB2, CHR 0xD0, CHR 0xBE, CHR 0xD0,
     CHR 0xB9, CHR '' '', CHR 0xD0, CHR 0xBC, CHR 0xD0, CHR 0xBE, CHR 0xD0, CHR 0xB4,
     CHR 0xD0, CHR 0xB5, CHR 0xD0, CHR 0xBB, CHR 0xD0, CHR 0xB8, CHR '' '', CHR 0xD0,
     CHR 0xB8, CHR '' '', CHR 0xD0, CHR 0xBD, CHR 0xD0, CHR 0xB5, CHR '' '', CHR 0xD0,
     CHR 0xBC, CHR 0xD0, CHR 0xBE, CHR 0xD0, CHR 0xB3, CHR 0xD1, CHR 0x83, CHR '' '',
     CHR 0xD0, CHR 0xBF, CHR 0xD1, CHR 0x80, CHR 0xD0, CHR 0xBE, CHR 0xD0, CHR 0xB4,
     CHR 0xD0, CHR 0xBE, CHR 0xD0, CHR 0xBB, CHR 0xD0, CHR 0xB6, CHR 0xD0, CHR 0xB8,
     CHR 0xD1, CHR 0x82, CHR 0xD1, CHR 0x8C, CHR ''.'', CHR '' '', CHR 0xD0, CHR 0x9F,
     CHR 0xD0, CHR 0xBE, CHR 0xD0, CHR 0xBF, CHR 0xD1, CHR 0x80, CHR 0xD0, CHR 0xBE,
     CHR 0xD0, CHR 0xB1, CHR 0xD1, CHR 0x83, CHR 0xD0, CHR 0xB9, CHR 0xD1, CHR 0x82,
     CHR 0xD0, CHR 0xB5, CHR '' '', CHR 0xD0, CHR 0xBF, CHR 0xD0, CHR 0xB5, CHR 0xD1,
     CHR 0x80, CHR 0xD0, CHR 0xB5, CHR 0xD1, CHR 0x84, CHR 0xD0, CHR 0xBE, CHR 0xD1,
     CHR 0x80, CHR 0xD0, CHR 0xBC, CHR 0xD1, CHR 0x83, CHR 0xD0, CHR 0xBB, CHR 0xD0,
     CHR 0xB8, CHR 0xD1, CHR 0x80, CHR 0xD0, CHR 0xBE, CHR 0xD0, CHR 0xB2, CHR 0xD0,
     CHR 0xB0, CHR 0xD1, CHR 0x82, CHR 0xD1, CHR 0x8C, CHR '' '', CHR 0xD0, CHR 0xB7,
     CHR 0xD0, CHR 0xB0, CHR 0xD0, CHR 0xBF, CHR 0xD1, CHR 0x80, CHR 0xD0, CHR 0xBE,
     CHR 0xD1, CHR 0x81, CHR ''.'']"

text \<open>tools.py, line 774.\<close>

definition text_missing_details :: string where
  "text_missing_details =
    [CHR 0xD0, CHR 0x9A, CHR 0xD0, CHR 0xB0, CHR 0xD0, CHR 0xB6, CHR 0xD0, CHR 0xB5,
     CHR 0xD1, CHR 0x82, CHR 0xD1, CHR 0x81, CHR 0xD1, CHR 0x8F, CHR '','', CHR '' '',
     CHR 0xD1, CHR 0x8F, CHR '' '', CHR 0xD0, CHR 0xBD, CHR 0xD0, CHR 0xB5, CHR '' '',
     CHR 0xD0, CHR 0xBF, CHR 0xD0, CHR 0xBE, CHR 0xD0, CHR 0xBB, CHR 0xD1, CHR 0x83,
     CHR 0xD1, CHR 0x87, CHR 0xD0, CHR 0xB8, CHR 0xD0, CHR 0xBB, CHR '' '', CHR 0xD0,
     CHR 0xB2, CHR 0xD1, CHR 0x81, CHR 0xD0, CHR 0xB5, CHR '' '', CHR 0xD0, CHR 0xBD,
     CHR 0xD0, CHR 0xB5, CHR 0xD0, CHR 0xBE, CHR 0xD0, CHR 0xB1, CHR 0xD1, CHR 0x85,
     CHR 0xD0, CHR 0xBE, CHR 0xD0, CHR 0xB4, CHR 0xD0, CHR 0xB8, CHR 0xD0, CHR 0xBC,
     CHR 0xD1, CHR 0x8B, CHR 0xD0, CHR 0xB5, CHR '' '', CHR 0xD0, CHR 0xB4, CHR 0xD0,
     CHR 0xB5, CHR 0xD1, CHR 0x82, CHR 0xD0, CHR 0xB0, CHR 0xD0, CHR 0xBB, CHR 0xD0,
     CHR 0xB8, CHR '' '', CHR 0xD0, CHR 0xB4, CHR 0xD0, CHR 0xBB, CHR 0xD1, CHR 0x8F,
     CHR '' '', CHR 0xD1, CHR 0x8D, CHR 0xD1, CHR 0x82, CHR 0xD0, CHR 0xBE, CHR 0xD0,
     CHR 0xB3, CHR 0xD0, CHR 0xBE, CHR '' '', CHR 0xD0, CHR 0xB4, CHR 0xD0, CHR 0xB5,
     CHR 0xD0, CHR 0xB9, CHR 0xD1, CHR 0x81, CHR 0xD1, CHR 0x82, CHR 0xD0, CHR 0xB2,
     CHR 0xD0, CHR 0xB8, CHR 0xD1, CHR 0x8F, CHR ''.'', CHR '' '', CHR 0xD0, CHR 0x9D,
     CHR 0xD0, CHR 0xB5, CHR '' '', CHR 0xD0, CHR 0xBC, CHR 0xD0, CHR 0xBE, CHR 0xD0,
     CHR 0xB3, CHR 0xD0, CHR 0xBB, CHR 0xD0, CHR 0xB8, CHR '' '', CHR 0xD0, CHR 0xB1,
     CHR 0xD1, CHR 0x8B, CHR '' '', CHR 0xD0, CHR 0xB2, CHR 0xD1, CHR 0x8B, CHR '' '',
     CHR 0xD1, CHR 0x83, CHR 0xD1, CHR 0x82, CHR 0xD0, CHR 0xBE, CHR 0xD1, CHR 0x87,
     CHR 0xD0, CHR 0xBD, CHR 0xD0, CHR 0xB8, CHR 0xD1, CHR 0x82, CHR 0xD1, CHR 0x8C,
     CHR '' '', CHR 0xD0, CHR 0xB2, CHR 0xD0, CHR 0xB0, CHR 0xD1, CHR 0x88, CHR '' '',
     CHR 0xD0, CHR 0xB7, CHR 0xD0, CHR 0xB0, CHR 0xD0, CHR 0xBF, CHR 0xD1, CHR 0x80,
     CHR 0xD0, CHR 0xBE, CHR 0xD1, CHR 0x81, CHR ''?'']"

text \<open>tools.py, line 779.\<close>

definition text_please_clarify :: string where
  "text_please_clarify =
    [CHR 0xD0, CHR 0x9D, CHR 0xD0, CHR 0xB5, CHR '' '', CHR 0xD0, CHR 0xBC, CHR 0xD0,
     CHR 0xBE, CHR 0xD0, CHR 0xB3, CHR 0xD0, CHR 0xBB, CHR 0xD0, CHR 0xB8, CHR '' '',
     CHR 0xD0, CHR 0xB1, CHR 0xD1, CHR 0x8B, CHR '' '', CHR 0xD0, CHR 0xB2, CHR 0xD1,
     CHR 0x8B, CHR '' '', CHR 0xD1, CHR 0x83, CHR 0xD1, CHR 0x82, CHR 0xD0, CHR 0xBE,
     CHR 0xD1, CHR 0x87, CHR 0xD0, CHR 0xBD, CHR 0xD0, CHR 0xB8, CHR 0xD1, CHR 0x82,
     CHR 0xD1, CHR 0x8C, CHR '' '', CHR 0xD0, CHR 0xB2, CHR 0xD0, CHR 0xB0, CHR 0xD1,
     CHR 0x88, CHR '' '', CHR 0xD0, CHR 0xB7, CHR 0xD0, CHR 0xB0, CHR 0xD0, CHR 0xBF,
     CHR 0xD1, CHR 0x80, CHR 0xD0, CHR 0xBE, CHR 0xD1, CHR 0x81, CHR ''?'', CHR '' '',
     CHR 0xD0, CHR 0x9C, CHR 0xD0, CHR 0xBD, CHR 0xD0, CHR 0xB5, CHR '' '', CHR 0xD0,
     CHR 0xBD, CHR 0xD0, CHR 0xB5, CHR '' '', CHR 0xD1, CHR 0x81, CHR 0xD0, CHR 0xBE,
     CHR 0xD0, CHR 0xB2, CHR 0xD1, CHR 0x81, CHR 0xD0, CHR 0xB5, CHR 0xD0, CHR 0xBC,
     CHR '' '', CHR 0xD0, CHR 0xBF, CHR 0xD0, CHR 0xBE, CHR 0xD0, CHR 0xBD, CHR 0xD1,
     CHR 0x8F, CHR 0xD1, CHR 0x82, CHR 0xD0, CHR 0xBD, CHR 0xD1, CHR 0x8B, CHR '' '',
     CHR 0xD0, CHR 0xBD, CHR 0xD0, CHR 0xB5, CHR 0xD0, CHR 0xBA, CHR 0xD0, CHR 0xBE,
     CHR 0xD1, CHR 0x82, CHR 0xD0, CHR 0xBE, CHR 0xD1, CHR 0x80, CHR 0xD1, CHR 0x8B,
     CHR 0xD0, CHR 0xB5, CHR '' '', CHR 0xD0, CHR 0xB4, CHR 0xD0, CHR 0xB5, CHR 0xD1,
     CHR 0x82, CHR 0xD0, CHR 0xB0, CHR 0xD0, CHR 0xBB, CHR 0xD0, CHR 0xB8, CHR ''.'']"

text \<open>telegram\_bot.py, line 181.\<close>

definition text_orchestrator_tool_error :: string where
  "text_orchestrator_tool_error =
    [CHR 0xD0, CHR 0x9D, CHR 0xD0, CHR 0xB5, CHR 0xD0, CHR 0xB8, CHR 0xD0, CHR 0xB7,
     CHR 0xD0, CHR 0xB2, CHR 0xD0, CHR 0xB5, CHR 0xD1, CHR 0x81, CHR 0xD1, CHR 0x82,
     CHR 0xD0, CHR 0xBD, CHR 0xD0, CHR 0xB0, CHR 0xD1, CHR 0x8F, CHR '' '', CHR 0xD0,
     CHR 0xBE, CHR 0xD1, CHR 0x88, CHR 0xD0, CHR 0xB8, CHR 0xD0, CHR 0xB1, CHR 0xD0,
     CHR 0xBA, CHR 0xD0, CHR 0xB0, CHR '' '', CHR 0xD0, CHR 0xBE, CHR 0xD1, CHR 0x82,
     CHR '' '', CHR 0xD0, CHR 0xB8, CHR 0xD0, CHR 0xBD, CHR 0xD1, CHR 0x81, CHR 0xD1,
     CHR 0x82, CHR 0xD1, CHR 0x80, CHR 0xD1, CHR 0x83, CHR 0xD0, CHR 0xBC, CHR 0xD0,
     CHR 0xB5, CHR 0xD0, CHR 0xBD, CHR 0xD1, CHR 0x82, CHR 0xD0, CHR 0xB0, CHR '' '',
     CHR 0xD0, CHR 0xBE, CHR 0xD1, CHR 0x80, CHR 0xD0, CHR 0xBA, CHR 0xD0, CHR 0xB5,
     CHR 0xD1, CHR 0x81, CHR 0xD1, CHR 0x82, CHR 0xD1, CHR 0x80, CHR 0xD0, CHR 0xB0,
     CHR 0xD1, CHR 0x82, CHR 0xD0, CHR 0xBE, CHR 0xD1, CHR 0x80, CHR 0xD0, CHR 0xB0,
     CHR ''.'']"


section \<open>The language-model client (app/llm\_client/llm\_client.py)\<close>

text \<open>
  What the completion call does. An exception \<open>e\<close> is described by \<^verbatim>\<open>str(e)\<close>, by the
  HTTP status it carries (429 for rate limiting) and by the text the handler extracts
  as \<^verbatim>\<open>api_error_details\<close> (lines 74--86).
\<close>

record llm_exception =
  le_str :: string
  le_status_code :: "int option"
  le_api_error_details :: string

datatype llm_outcome =
    ApiKeyNotConfigured
  | CompletionRaised llm_exception
  | EmptyContent
  | InvalidJson string
  | ParsedJson json

text \<open>\<^verbatim>\<open>get_llm_response\<close>: the one handler \<^verbatim>\<open>except Exception as e\<close> (line 72)
  serves every exception of the call.\<close>

definition get_llm_response :: "llm_outcome \<Rightarrow> json" where
  "get_llm_response outcome =
     (case outcome of
        ApiKeyNotConfigured \<Rightarrow> JObj [(''error'', JStr ''LLM API key not configured.'')]
      | CompletionRaised e \<Rightarrow>
          JObj [(''error'', JStr (''LLM API call failed: '' @ le_str e)),
                (''details'', JStr (le_api_error_details e))]
      | EmptyContent \<Rightarrow> JObj [(''error'', JStr ''LLM response content was empty.'')]
      | InvalidJson raw \<Rightarrow>
          JObj [(''error'', JStr ''LLM returned invalid JSON.''), (''raw_response'', JStr raw)]
      | ParsedJson parsed_response \<Rightarrow> parsed_response)"

section \<open>The orchestrator tool (tools.py, lines 724--781)\<close>

definition clarification_only :: "string \<Rightarrow> json" where
  "clarification_only t =
     JObj [(''tool_name'', JNull), (''arguments'', JObj []), (''clarification_needed'', JStr t)]"

text \<open>
  \<^verbatim>\<open>if k in arguments_chosen: del arguments_chosen[k]\<close> for whatever JSON value the
  interpreter put under \<^verbatim>\<open>"arguments"\<close>: a dictionary loses the key; a list or a
  string that contains \<open>k\<close> makes \<^verbatim>\<open>del\<close> raise; \<^verbatim>\<open>in\<close> raises on the rest.
\<close>

fun strip_key :: "string \<Rightarrow> json \<Rightarrow> py_exception + json" where
  "strip_key k (JObj a) = Inr (JObj (AList.delete k a))"
| "strip_key k (JList l) = (if JStr k \<in> set l then Inl TypeError else Inr (JList l))"
| "strip_key k (JStr s) = (if str_contains k s then Inl TypeError else Inr (JStr s))"
| "strip_key k _ = Inl TypeError"

definition reservation_tool :: string where
  "reservation_tool = ''create_exely_reservation_and_get_link''"

text \<open>Lines 760--767.\<close>

definition discard_context_arguments ::
  "(string \<times> json) list \<Rightarrow> py_exception + (string \<times> json) list" where
  "discard_context_arguments d =
     (if dict_get d ''tool_name'' = JStr reservation_tool then
        (case strip_key ''booking_option_id'' (dict_get d ''arguments'') of
           Inl ex \<Rightarrow> Inl ex
         | Inr a1 \<Rightarrow>
             (case strip_key ''guarantee_code'' a1 of
                Inl ex \<Rightarrow> Inl ex
              | Inr a2 \<Rightarrow> Inr (AList.update ''arguments'' a2 d)))
      else Inr d)"

text \<open>Lines 770--775. \<open>tool_name_chosen\<close> and \<open>arguments_chosen\<close> are the locals read
  at lines 757--758; the second is the stripped value after line 767.\<close>

definition downgrade_without_arguments ::
  "json \<Rightarrow> json \<Rightarrow> (string \<times> json) list \<Rightarrow> py_exception + (string \<times> json) list" where
  "downgrade_without_arguments tool_name_chosen arguments_chosen d =
     (if truthy tool_name_chosen \<and> \<not> truthy arguments_chosen then
        (if tool_name_chosen \<in> {JStr ''get_exely_booking_options'', JStr reservation_tool,
                                  JStr ''cancel_exely_reservation''}
         then Inr (AList.update ''tool_name'' JNull
                     (AList.update ''clarification_needed'' (JStr text_missing_details) d))
         else if tool_name_chosen = JStr ''get_hotel_public_info'' then
           (case arguments_chosen of
              JObj _ \<Rightarrow> Inr (AList.update ''tool_name'' JNull
                               (AList.update ''clarification_needed'' (JStr text_missing_details) d))
            | _ \<Rightarrow> Inl AttributeError)
         else Inr d)
      else Inr d)"

text \<open>Lines 777--779.\<close>

definition default_clarification :: "(string \<times> json) list \<Rightarrow> (string \<times> json) list" where
  "default_clarification d =
     (if dict_get d ''tool_name'' = JNull \<and> \<not> truthy (dict_get d ''clarification_needed'')
      then AList.update ''clarification_needed'' (JStr text_please_clarify) d
      else d)"

text \<open>
  \<^verbatim>\<open>process_natural_language_request\<close> from the call of \<^verbatim>\<open>get_llm_response\<close> on
  (the lines before it build the prompt). The result is the dictionary the tool
  returns, or the exception that leaves it.
\<close>

definition process_natural_language_request :: "llm_outcome \<Rightarrow> py_exception + json" where
  "process_natural_language_request outcome =
     (let llm_structured_response = get_llm_response outcome in
      if \<not> truthy llm_structured_response then Inr (clarification_only text_internal_error)
      else
        (case llm_structured_response of
           JObj d \<Rightarrow>
             if has_key d ''_llm_rate_limit_exceeded_'' then Inr (JObj d)
             else if has_key d ''error'' \<or> has_key d ''_mcp_client_error_'' then
               (let error_msg =
                      (if truthy (dict_get d ''message'') then dict_get d ''message''
                       else (case map_of d ''error'' of
                               None \<Rightarrow> JStr text_llm_no_answer | Some e \<Rightarrow> e))
                in Inr (JObj [(''_mcp_client_error_'', JBool True),
                              (''message'', error_msg),
                              (''details'', (case map_of d ''details'' of
                                               None \<Rightarrow> error_msg | Some v \<Rightarrow> v))]))
             else if \<not> (has_key d ''tool_name'' \<and> has_key d ''arguments''
                         \<and> has_key d ''clarification_needed'')
             then Inr (clarification_only text_unexpected_llm_response)
             else
               (case discard_context_arguments d of
                  Inl ex \<Rightarrow> Inl ex
                | Inr d1 \<Rightarrow>
                    (case downgrade_without_arguments (dict_get d ''tool_name'')
                            (dict_get d1 ''arguments'') d1 of
                       Inl ex \<Rightarrow> Inl ex
                     | Inr d2 \<Rightarrow> Inr (JObj (default_clarification d2))))
         | _ \<Rightarrow> Inr (clarification_only text_unexpected_llm_response)))"


section \<open>The session and the turn handler (telegram\_bot.py)\<close>

definition USER_ACTION_AWAITING_CLARIFICATION :: string where
  "USER_ACTION_AWAITING_CLARIFICATION = ''awaiting_clarification_llm''"

definition USER_ACTION_AWAITING_OPTION_CHOICE :: string where
  "USER_ACTION_AWAITING_OPTION_CHOICE = ''awaiting_option_choice''"

definition USER_ACTION_AWAITING_BOOKING_DETAILS :: string where
  "USER_ACTION_AWAITING_BOOKING_DETAILS = ''awaiting_booking_details_llm''"

text \<open>
  One entry of \<^verbatim>\<open>user_states\<close>: \<^verbatim>\<open>state["action"]\<close> and the keys of
  \<^verbatim>\<open>state["data"]\<close> that \<^verbatim>\<open>get_or_init_state\<close> sets up.
\<close>

record session =
  action :: "string option"
  context_hotel_info :: "(string \<times> json) list option"
  context_check_in_date :: "string option"
  context_check_out_date :: "string option"
  context_num_adults :: "int option"
  context_children_ages :: "int list"
  selected_option_id :: "string option"
  selected_guarantee_code :: "string option"
  current_search_options_details :: "(string \<times> json) list"
  selected_option_details :: "(string \<times> json) list"
  context_customer_info :: "CustomerDetailLLM option"

definition reset_user_action_and_search_context :: "session \<Rightarrow> session" where
  "reset_user_action_and_search_context s =
     s\<lparr>action := None, current_search_options_details := [], selected_option_id := None,
       selected_guarantee_code := None, selected_option_details := []\<rparr>"

definition reset_full_search_parameters :: "bool \<Rightarrow> session \<Rightarrow> session" where
  "reset_full_search_parameters reset_hotel_info s =
     s\<lparr>context_check_in_date := None, context_check_out_date := None,
       context_num_adults := None, context_children_ages := [],
       context_customer_info := None,
       context_hotel_info := (if reset_hotel_info then None else context_hotel_info s)\<rparr>"

text \<open>
  \<^verbatim>\<open>call_mcp_tool_orchestrator\<close>, for a transport that delivers: the tool raised
  (\<^verbatim>\<open>isError\<close>), or its dictionary arrives as JSON text and is parsed back.
\<close>

definition call_mcp_tool_orchestrator :: "py_exception + json \<Rightarrow> json" where
  "call_mcp_tool_orchestrator tool_outcome =
     (case tool_outcome of
        Inl ex \<Rightarrow>
          JObj [(''_mcp_tool_error_'', JBool True),
                (''message'', JStr text_orchestrator_tool_error)]
      | Inr (JObj d) \<Rightarrow>
          if has_key d ''error''
          then JObj [(''_mcp_tool_error_'', JBool True), (''message'', dict_get d ''error'')]
          else JObj d
      | Inr parsed_llm_directive \<Rightarrow> parsed_llm_directive)"

text \<open>What the bot sends to the user, one constructor per message of the handler.\<close>

datatype bot_message =
    RateLimitNotice "json option"
  | OrchestratorErrorText string
  | TechnicalProblem
  | HotelGreeting json
  | Clarification string
  | NotUnderstood
  | NeedOptionAndGuarantee
  | InvalidReservationArguments
  | NeedMoreDetails
  | BookingResult CreateReservationResult
  | UnsupportedTool string

datatype turn_end = Returned | Crashed py_exception | OtherTool string json

record turn_result =
  tr_session :: session
  tr_messages :: "bot_message list"
  tr_sent :: "HotelReservationRequest option"
  tr_cache :: offer_cache
  tr_end :: turn_end

text \<open>Pydantic validation of the tool arguments (schemas\_llm.py). A field accepts the
  JSON value of its own type; Pydantic's lax coercions between types are not modelled
  and count as invalid. Unknown keys are ignored.\<close>

definition optional_str :: "json option \<Rightarrow> string option option" where
  "optional_str v =
     (case v of None \<Rightarrow> Some None | Some JNull \<Rightarrow> Some None
      | Some (JStr s) \<Rightarrow> Some (Some s) | _ \<Rightarrow> None)"

definition required_str :: "json option \<Rightarrow> string option" where
  "required_str v = (case v of Some (JStr s) \<Rightarrow> Some s | _ \<Rightarrow> None)"

definition GuestDetailLLM_validate :: "json \<Rightarrow> GuestDetailLLM option" where
  "GuestDetailLLM_validate j =
     (case j of
        JObj g \<Rightarrow>
          (case (required_str (map_of g ''first_name''), required_str (map_of g ''last_name''),
                 optional_str (map_of g ''middle_name''), optional_str (map_of g ''citizenship''))
           of (Some f, Some l, Some m, Some c) \<Rightarrow>
                (case (case map_of g ''is_child'' of
                         None \<Rightarrow> Some False | Some (JBool b) \<Rightarrow> Some b | _ \<Rightarrow> None,
                       case map_of g ''age'' of
                         None \<Rightarrow> Some None | Some JNull \<Rightarrow> Some None
                       | Some (JInt a) \<Rightarrow> Some (Some a) | _ \<Rightarrow> None)
                 of (Some is_child, Some age) \<Rightarrow>
                      if is_child \<and> age = None then None
                      else Some \<lparr>gd_first_name = f, gd_last_name = l, gd_middle_name = m,
                                 gd_citizenship = c, gd_is_child = is_child, gd_age = age\<rparr>
                  | _ \<Rightarrow> None)
            | _ \<Rightarrow> None)
      | _ \<Rightarrow> None)"

definition CustomerDetailLLM_validate :: "json \<Rightarrow> CustomerDetailLLM option" where
  "CustomerDetailLLM_validate j =
     (case j of
        JObj c \<Rightarrow>
          (case (required_str (map_of c ''first_name''), required_str (map_of c ''last_name''),
                 optional_str (map_of c ''middle_name''), required_str (map_of c ''email''),
                 required_str (map_of c ''phone''), optional_str (map_of c ''comment''))
           of (Some f, Some l, Some m, Some e, Some p, Some k) \<Rightarrow>
                Some \<lparr>cd_first_name = f, cd_last_name = l, cd_middle_name = m,
                      cd_email = e, cd_phone = p, cd_comment = k\<rparr>
            | _ \<Rightarrow> None)
      | _ \<Rightarrow> None)"

fun validate_all :: "('a \<Rightarrow> 'b option) \<Rightarrow> 'a list \<Rightarrow> 'b list option" where
  "validate_all f [] = Some []"
| "validate_all f (x # xs) =
     (case f x of
        None \<Rightarrow> None
      | Some y \<Rightarrow> (case validate_all f xs of None \<Rightarrow> None | Some ys \<Rightarrow> Some (y # ys)))"

definition CreateReservationToolParams_validate ::
  "Settings \<Rightarrow> (string \<times> json) list \<Rightarrow> CreateReservationToolParams option" where
  "CreateReservationToolParams_validate cfg a =
     (case (required_str (map_of a ''booking_option_id''),
            required_str (map_of a ''guarantee_code''),
            case map_of a ''guests'' of
              Some (JList gs) \<Rightarrow> validate_all GuestDetailLLM_validate gs | _ \<Rightarrow> None,
            case map_of a ''customer'' of
              Some c \<Rightarrow> CustomerDetailLLM_validate c | None \<Rightarrow> None,
            case map_of a ''language'' of
              None \<Rightarrow> Some (Some (DEFAULT_LANGUAGE_LLM cfg)) | v \<Rightarrow> optional_str v)
      of (Some b, Some g, Some gs, Some c, Some l) \<Rightarrow>
           Some \<lparr>crp_booking_option_id = b, crp_guests = gs, crp_customer = c,
                 crp_guarantee_code = g, crp_language = l\<rparr>
       | _ \<Rightarrow> None)"

text \<open>Lines 476--478: the arguments from the directive, overwritten from the session
  where the session holds a (truthy) value.\<close>

definition final_args_for_create :: "session \<Rightarrow> (string \<times> json) list \<Rightarrow> (string \<times> json) list" where
  "final_args_for_create s tool_arguments_from_llm =
     (let a1 = (case selected_option_id s of
                  Some sid \<Rightarrow>
                    if sid \<noteq> [] then AList.update ''booking_option_id'' (JStr sid)
                                        tool_arguments_from_llm
                    else tool_arguments_from_llm
                | None \<Rightarrow> tool_arguments_from_llm)
      in (case selected_guarantee_code s of
            Some g \<Rightarrow> if g \<noteq> [] then AList.update ''guarantee_code'' (JStr g) a1 else a1
          | None \<Rightarrow> a1))"

definition error_statuses :: "string list" where
  "error_statuses = [''error'', ''failed'', ''error_api'', ''error_internal'',
                     ''error_unexpected_response'', ''cancelled'']"

text \<open>
  Lines 587--654: handling of a \<^verbatim>\<open>CreateReservationResult\<close>. \<open>strptime_ok\<close> tells
  whether \<^verbatim>\<open>datetime.strptime(s, "%Y-%m-%d")\<close> succeeds; a \<^verbatim>\<open>ValueError\<close> is caught
  (line 599), the \<^verbatim>\<open>TypeError\<close> for a date that is \<^verbatim>\<open>None\<close> is not.
\<close>

definition handle_create_reservation_result ::
  "(string \<Rightarrow> bool) \<Rightarrow> session \<Rightarrow> CreateReservationResult
     \<Rightarrow> py_exception + session \<times> bot_message list" where
  "handle_create_reservation_result strptime_ok s res =
     (case context_check_in_date s of
        None \<Rightarrow> Inl TypeError
      | Some check_in \<Rightarrow>
          if (check_in = text_not_specified \<or> strptime_ok check_in)
             \<and> context_check_out_date s = None
          then Inl TypeError
          else
            Inr ((if lower (res_status res) \<notin> set error_statuses
                  then reset_full_search_parameters True (reset_user_action_and_search_context s)
                  else s)\<lparr>action := None\<rparr>,
                 [BookingResult res]))"

text \<open>Lines 475--496 and 514--524: the branch of the reservation tool. Line 493 of
  the file carries the stray words \<^verbatim>\<open>Add minor fix\<close> after its colon; the branch is
  read without them.\<close>

definition call_reservation_tool ::
  "Settings \<Rightarrow> (string \<Rightarrow> bool)
     \<Rightarrow> (HotelReservationRequest \<Rightarrow> client_exception + HotelReservationResponse)
     \<Rightarrow> offer_cache \<Rightarrow> session \<Rightarrow> json \<Rightarrow> turn_result" where
  "call_reservation_tool cfg strptime_ok reserve cache s tool_arguments_from_llm =
     (case tool_arguments_from_llm of
        JObj args \<Rightarrow>
          (let final_args = final_args_for_create s args in
           if \<not> truthy (dict_get final_args ''booking_option_id'')
              \<or> \<not> truthy (dict_get final_args ''guarantee_code'')
           then \<lparr>tr_session = s\<lparr>action := Some USER_ACTION_AWAITING_OPTION_CHOICE\<rparr>,
                 tr_messages = [NeedOptionAndGuarantee], tr_sent = None, tr_cache = cache,
                 tr_end = Returned\<rparr>
           else
             (case CreateReservationToolParams_validate cfg final_args of
                None \<Rightarrow>
                  \<lparr>tr_session = s\<lparr>action := Some USER_ACTION_AWAITING_BOOKING_DETAILS\<rparr>,
                   tr_messages = [InvalidReservationArguments], tr_sent = None,
                   tr_cache = cache, tr_end = Returned\<rparr>
              | Some tool_params \<Rightarrow>
                  (let s1 = s\<lparr>context_customer_info := Some (crp_customer tool_params)\<rparr>;
                       out = create_exely_reservation_and_get_link cfg reserve cache tool_params
                   in case ro_result out of
                        Inl ValidationError \<Rightarrow>
                          \<lparr>tr_session = s1\<lparr>action := Some USER_ACTION_AWAITING_CLARIFICATION\<rparr>,
                           tr_messages = [NeedMoreDetails], tr_sent = ro_sent out,
                           tr_cache = ro_cache out, tr_end = Returned\<rparr>
                      | Inl _ \<Rightarrow>
                          \<lparr>tr_session = (reset_user_action_and_search_context s1)\<lparr>action := None\<rparr>,
                           tr_messages = [TechnicalProblem], tr_sent = ro_sent out,
                           tr_cache = ro_cache out, tr_end = Returned\<rparr>
                      | Inr res \<Rightarrow>
                          (case handle_create_reservation_result strptime_ok s1 res of
                             Inl ex \<Rightarrow>
                               \<lparr>tr_session = s1, tr_messages = [], tr_sent = ro_sent out,
                                tr_cache = ro_cache out, tr_end = Crashed ex\<rparr>
                           | Inr (s2, msgs) \<Rightarrow>
                               \<lparr>tr_session = s2, tr_messages = msgs, tr_sent = ro_sent out,
                                tr_cache = ro_cache out, tr_end = Returned\<rparr>))))
      | _ \<Rightarrow>
          \<lparr>tr_session = (reset_user_action_and_search_context s)\<lparr>action := None\<rparr>,
           tr_messages = [TechnicalProblem], tr_sent = None, tr_cache = cache,
           tr_end = Returned\<rparr>)"

text \<open>\<^verbatim>\<open>not tool_name_to_call or tool_name_to_call.lower() == "null"\<close>; a truthy value
  that is not a string has no \<^verbatim>\<open>lower\<close>.\<close>

definition no_tool_named :: "json \<Rightarrow> py_exception + bool" where
  "no_tool_named tool_name_to_call =
     (if \<not> truthy tool_name_to_call then Inr True
      else (case tool_name_to_call of
              JStr t \<Rightarrow> Inr (lower t = ''null'')
            | _ \<Rightarrow> Inl AttributeError))"

definition finish :: "offer_cache \<Rightarrow> session \<Rightarrow> bot_message list \<Rightarrow> turn_result" where
  "finish cache s msgs =
     \<lparr>tr_session = s, tr_messages = msgs, tr_sent = None, tr_cache = cache, tr_end = Returned\<rparr>"

definition crash :: "offer_cache \<Rightarrow> session \<Rightarrow> py_exception \<Rightarrow> turn_result" where
  "crash cache s ex =
     \<lparr>tr_session = s, tr_messages = [], tr_sent = None, tr_cache = cache, tr_end = Crashed ex\<rparr>"

text \<open>Lines 386--512: the dispatch on the tool name. The branches of the three other
  tools are outside this development; the turn then ends as \<open>OtherTool\<close>.\<close>

definition dispatch_tool ::
  "Settings \<Rightarrow> (string \<Rightarrow> bool)
     \<Rightarrow> (HotelReservationRequest \<Rightarrow> client_exception + HotelReservationResponse)
     \<Rightarrow> offer_cache \<Rightarrow> session \<Rightarrow> string \<Rightarrow> json \<Rightarrow> turn_result" where
  "dispatch_tool cfg strptime_ok reserve cache s tool_name_to_call tool_arguments_from_llm =
     (if tool_name_to_call \<in> {''get_hotel_public_info'', ''get_exely_booking_options'',
                                ''cancel_exely_reservation''}
      then \<lparr>tr_session = s, tr_messages = [], tr_sent = None, tr_cache = cache,
            tr_end = OtherTool tool_name_to_call tool_arguments_from_llm\<rparr>
      else if tool_name_to_call = reservation_tool
      then call_reservation_tool cfg strptime_ok reserve cache s tool_arguments_from_llm
      else finish cache
             ((reset_full_search_parameters True (reset_user_action_and_search_context s))
                \<lparr>action := None\<rparr>)
             [UnsupportedTool tool_name_to_call])"

text \<open>Lines 360--384, for a clarification that is a string \<open>c\<close> (after the
  meta-instruction filter) or absent.\<close>

definition clarification_or_dispatch ::
  "Settings \<Rightarrow> (string \<Rightarrow> bool)
     \<Rightarrow> (HotelReservationRequest \<Rightarrow> client_exception + HotelReservationResponse)
     \<Rightarrow> offer_cache \<Rightarrow> session \<Rightarrow> string \<Rightarrow> json \<Rightarrow> json \<Rightarrow> turn_result" where
  "clarification_or_dispatch cfg strptime_ok reserve cache s c tool_name_to_call
       tool_arguments_from_llm =
     (if c \<noteq> [] \<and> lower (strip c) \<noteq> ''null'' \<and> strip c \<noteq> [] then
        finish cache
          (s\<lparr>action := Some
               (if tool_name_to_call = JStr reservation_tool
                then USER_ACTION_AWAITING_BOOKING_DETAILS
                else if tool_name_to_call = JStr ''get_exely_booking_options''
                then USER_ACTION_AWAITING_CLARIFICATION
                else if action s = Some USER_ACTION_AWAITING_OPTION_CHOICE
                then USER_ACTION_AWAITING_BOOKING_DETAILS
                else USER_ACTION_AWAITING_CLARIFICATION)\<rparr>)
          [Clarification c]
      else
        (case no_tool_named tool_name_to_call of
           Inl ex \<Rightarrow> crash cache s ex
         | Inr True \<Rightarrow>
             finish cache (s\<lparr>action := None\<rparr>)
               (if c = [] then [NotUnderstood]
                else if str_contains phrase_greeting c
                        \<and> (case context_hotel_info s of None \<Rightarrow> False | Some h \<Rightarrow> h \<noteq> [])
                then []
                else [Clarification c])
         | Inr False \<Rightarrow>
             (case tool_name_to_call of
                JStr t \<Rightarrow>
                  dispatch_tool cfg strptime_ok reserve cache s t tool_arguments_from_llm
              | _ \<Rightarrow> crash cache s AttributeError)))"

text \<open>Line 347: \<^verbatim>\<open>clarification_needed and "..." in clarification_needed\<close>, for a
  truthy value: a substring test on a string, a membership test on a list, a key test on
  a dictionary, a \<^verbatim>\<open>TypeError\<close> on a number or a boolean.\<close>

definition meta_marker_in :: "json \<Rightarrow> py_exception + bool" where
  "meta_marker_in clarification_needed =
     (case clarification_needed of
        JStr c \<Rightarrow> Inr (str_contains phrase_meta_answer c)
      | JList l \<Rightarrow> Inr (JStr phrase_meta_answer \<in> set l)
      | JObj obj \<Rightarrow> Inr (has_key obj phrase_meta_answer)
      | _ \<Rightarrow> Inl TypeError)"

text \<open>
  \<^verbatim>\<open>handle_text_messages_async\<close> from the directive on (line 317). A clarification that
  is truthy and not a string raises at \<^verbatim>\<open>strip\<close> (line 360) unless the filter of
  line 347 has replaced it by the greeting.
\<close>

definition handle_text_messages_async ::
  "Settings \<Rightarrow> (string \<Rightarrow> bool)
     \<Rightarrow> (HotelReservationRequest \<Rightarrow> client_exception + HotelReservationResponse)
     \<Rightarrow> offer_cache \<Rightarrow> session \<Rightarrow> json \<Rightarrow> turn_result" where
  "handle_text_messages_async cfg strptime_ok reserve cache s llm_directive =
     (case llm_directive of
        JObj d \<Rightarrow>
          if truthy (dict_get d ''_llm_rate_limit_exceeded_'') then
            finish cache s [RateLimitNotice (map_of d ''clarification_needed'')]
          else if truthy (dict_get d ''_mcp_client_error_'')
                  \<or> truthy (dict_get d ''_mcp_tool_error_'') then
            (case map_of d ''message'' of
               None \<Rightarrow> finish cache (s\<lparr>action := None\<rparr>) [TechnicalProblem]
             | Some (JStr m) \<Rightarrow>
                 finish cache (s\<lparr>action := None\<rparr>)
                   [if str_contains phrase_service_overloaded (lower m)
                       \<or> str_contains phrase_try_later (lower m)
                    then OrchestratorErrorText m else TechnicalProblem]
             | Some _ \<Rightarrow> crash cache s AttributeError)
          else
            (let clarification_needed = dict_get d ''clarification_needed'';
                 tool_name_to_call = dict_get d ''tool_name'';
                 tool_arguments_from_llm =
                   (case map_of d ''arguments'' of None \<Rightarrow> JObj [] | Some a \<Rightarrow> a)
             in if \<not> truthy clarification_needed then
                  clarification_or_dispatch cfg strptime_ok reserve cache s []
                    tool_name_to_call tool_arguments_from_llm
                else
                  (case meta_marker_in clarification_needed of
                     Inl ex \<Rightarrow> crash cache s ex
                   | Inr True \<Rightarrow>
                       (case context_hotel_info s of
                          None \<Rightarrow> crash cache s AttributeError
                        | Some h \<Rightarrow>
                            (case no_tool_named tool_name_to_call of
                               Inl ex \<Rightarrow> crash cache s ex
                             | Inr no_tool \<Rightarrow>
                                 finish cache
                                   (s\<lparr>action := Some
                                        (if no_tool
                                           \<or> tool_name_to_call = JStr ''get_exely_booking_options''
                                         then USER_ACTION_AWAITING_CLARIFICATION
                                         else if tool_name_to_call = JStr reservation_tool
                                         then USER_ACTION_AWAITING_BOOKING_DETAILS
                                         else if action s = Some USER_ACTION_AWAITING_OPTION_CHOICE
                                         then USER_ACTION_AWAITING_BOOKING_DETAILS
                                         else USER_ACTION_AWAITING_CLARIFICATION)\<rparr>)
                                   [HotelGreeting
                                      (case map_of h ''name'' of
                                         None \<Rightarrow> JStr (DEFAULT_HOTEL_CODE cfg)
                                       | Some n \<Rightarrow> n)]))
                   | Inr False \<Rightarrow>
                       (case clarification_needed of
                          JStr c \<Rightarrow>
                            clarification_or_dispatch cfg strptime_ok reserve cache s c
                              tool_name_to_call tool_arguments_from_llm
                        | _ \<Rightarrow> crash cache s AttributeError)))
      | _ \<Rightarrow> crash cache s AttributeError)"

text \<open>One conversational turn: the completion call, the orchestrator tool, the transport
  back to the bot and the handler.\<close>

definition conversational_turn ::
  "Settings \<Rightarrow> (string \<Rightarrow> bool)
     \<Rightarrow> (HotelReservationRequest \<Rightarrow> client_exception + HotelReservationResponse)
     \<Rightarrow> offer_cache \<Rightarrow> session \<Rightarrow> llm_outcome \<Rightarrow> turn_result" where
  "conversational_turn cfg strptime_ok reserve cache s outcome =
     handle_text_messages_async cfg strptime_ok reserve cache s
       (call_mcp_tool_orchestrator (process_natural_language_request outcome))"


section \<open>Concrete values for the examples\<close>

text \<open>The defaults of \<^verbatim>\<open>app/config.py\<close>.\<close>

definition example_settings :: Settings where
  "example_settings =
     \<lparr>DEFAULT_HOTEL_CODE = ''508308'', DEFAULT_LANGUAGE_LLM = ''ru'',
      DEFAULT_SUCCESS_URL = ''https://example.com/booking/success'',
      DEFAULT_DECLINE_URL = ''https://example.com/booking/decline'',
      DEFAULT_POS_URL = ''https://mybookingplatform.com'',
      DEFAULT_POS_INTEGRATION_KEY = ''MY-MCP-AGENT-001'',
      DEFAULT_SUBSCRIBE_EMAIL = True\<rparr>"

definition example_placement :: "int \<Rightarrow> string \<Rightarrow> PlacementPrice" where
  "example_placement i c = \<lparr>pp_index = i, pp_kind = ''adult'', pp_code = c\<rparr>"

definition example_group :: "int \<Rightarrow> nat \<Rightarrow> nat option \<Rightarrow> GuestCount" where
  "example_group i n a =
     \<lparr>gc_placement_index = i, gc_count = n, gc_age = a, gc_age_qualifying_code = None\<rparr>"

definition example_offer :: "PlacementPrice list \<Rightarrow> GuestCount list \<Rightarrow> RoomStayAvailability" where
  "example_offer pls gcs =
     \<lparr>rs_hotel_code = ''508308'', rs_guests = gcs,
      rs_room_types = [\<lparr>rt_placements = pls, rt_code = ''DBL''\<rparr>],
      rs_rate_plans = [''BAR''], rs_placement_rates = [''BAR''],
      rs_stay_dates = (''2030-06-14 14:00:00'', ''2030-06-16 12:00:00''),
      rs_currency = ''GEL'', rs_guarantees = [''G1'']\<rparr>"

definition example_guest :: "string \<Rightarrow> GuestDetailLLM" where
  "example_guest n =
     \<lparr>gd_first_name = n, gd_last_name = ''Doe'', gd_middle_name = None,
      gd_citizenship = None, gd_is_child = False, gd_age = None\<rparr>"

definition example_customer :: CustomerDetailLLM where
  "example_customer =
     \<lparr>cd_first_name = ''John'', cd_last_name = ''Doe'', cd_middle_name = None,
      cd_email = ''john@example.com'', cd_phone = ''+995555123456'', cd_comment = None\<rparr>"

definition example_params :: "string \<Rightarrow> string \<Rightarrow> GuestDetailLLM list \<Rightarrow> CreateReservationToolParams" where
  "example_params oid g gs =
     \<lparr>crp_booking_option_id = oid, crp_guests = gs, crp_customer = example_customer,
      crp_guarantee_code = g, crp_language = Some ''ru''\<rparr>"

text \<open>Offers: two adults and a child of six in two placements; a guest-count group with
  a count of zero; two children of different ages in one placement; a room for three.\<close>

definition two_adults_one_child :: RoomStayAvailability where
  "two_adults_one_child =
     example_offer [example_placement 0 ''AdultBed'', example_placement 5 ''ChildBed'']
       [example_group 0 2 None, example_group 5 1 (Some 6)]"

definition zero_count_offer :: RoomStayAvailability where
  "zero_count_offer =
     example_offer [example_placement 0 ''AdultBed'', example_placement 1 ''ExtraBed'']
       [example_group 0 2 None, example_group 1 0 None]"

definition two_children_one_bed :: RoomStayAvailability where
  "two_children_one_bed =
     example_offer [example_placement 3 ''ChildBed'']
       [example_group 3 1 (Some 5), example_group 3 1 (Some 7)]"


definition two_guests :: "GuestDetailLLM list" where
  "two_guests = [example_guest ''Ann'', example_guest ''Bob'']"











text \<open>
  A conversation: the arguments the interpreter extracts for two guests and a booker; a
  directive that names the reservation tool with such arguments and asks nothing; the
  same directive carrying the key \<^verbatim>\<open>"_llm_rate_limit_exceeded_"\<close> with the value
  \<^verbatim>\<open>false\<close>; a session that has selected option \<^verbatim>\<open>opt-1\<close> and awaits the booking
  details, and one that has selected nothing; two cached offers of different hotels; a
  provider that is never called and one that confirms; the exception of a completion
  call answered with status 429.
\<close>

definition guest_json :: "string \<Rightarrow> json" where
  "guest_json n = JObj [(''first_name'', JStr n), (''last_name'', JStr ''Doe'')]"

definition customer_json :: json where
  "customer_json =
     JObj [(''first_name'', JStr ''John''), (''last_name'', JStr ''Doe''),
           (''email'', JStr ''john@example.com''), (''phone'', JStr ''+995555123456'')]"

definition booking_arguments :: "(string \<times> json) list" where
  "booking_arguments =
     [(''guests'', JList [guest_json ''Ann'', guest_json ''Bob'']),
      (''customer'', customer_json)]"

definition reservation_directive :: "(string \<times> json) list \<Rightarrow> json" where
  "reservation_directive args =
     JObj [(''tool_name'', JStr reservation_tool), (''arguments'', JObj args),
           (''clarification_needed'', JNull)]"

definition booking_session :: session where
  "booking_session =
     \<lparr>action = Some USER_ACTION_AWAITING_BOOKING_DETAILS, context_hotel_info = None,
      context_check_in_date = Some ''2030-06-14'', context_check_out_date = Some ''2030-06-16'',
      context_num_adults = Some 3, context_children_ages = [],
      selected_option_id = Some ''opt-1'', selected_guarantee_code = Some ''G1'',
      current_search_options_details = [], selected_option_details = [],
      context_customer_info = None\<rparr>"

definition provider_unused ::
  "HotelReservationRequest \<Rightarrow> client_exception + HotelReservationResponse" where
  "provider_unused r = Inl (PyExc ValueError)"

definition marked_directive :: "(string \<times> json) list \<Rightarrow> json" where
  "marked_directive args =
     JObj [(''_llm_rate_limit_exceeded_'', JBool False),
           (''tool_name'', JStr reservation_tool), (''arguments'', JObj args),
           (''clarification_needed'', JNull)]"

definition supplied_ids :: "string \<Rightarrow> string \<Rightarrow> (string \<times> json) list" where
  "supplied_ids oid g =
     [(''booking_option_id'', JStr oid), (''guarantee_code'', JStr g)] @ booking_arguments"

definition new_session :: session where
  "new_session =
     booking_session\<lparr>action := None, selected_option_id := None,
                       selected_guarantee_code := None\<rparr>"

definition room_for_two :: RoomStayAvailability where
  "room_for_two = example_offer [example_placement 0 ''AdultBed''] [example_group 0 2 None]"

definition other_hotel_room :: RoomStayAvailability where
  "other_hotel_room = room_for_two\<lparr>rs_hotel_code := ''999999''\<rparr>"

definition two_offers :: offer_cache where
  "two_offers = [''opt-A'' \<mapsto> room_for_two, ''opt-B'' \<mapsto> other_hotel_room]"

definition provider_confirms ::
  "HotelReservationRequest \<Rightarrow> client_exception + HotelReservationResponse" where
  "provider_confirms r =
     Inr \<lparr>hrr_hotel_reservations =
            Some [\<lparr>hri_number = ''B-1'', hri_status = ''confirmed'',
                   hri_cancellation_code = ''C-1'', hri_guarantee_payment_urls = [],
                   hri_order_url = None\<rparr>],
          hrr_errors = None\<rparr>"

definition rate_limited :: llm_exception where
  "rate_limited =
     \<lparr>le_str = ''API error occurred: Status 429'', le_status_code = Some 429,
      le_api_error_details = ''Requests rate limit exceeded''\<rparr>"


chapter \<open>Properties\<close>

section \<open>Lemmas about the mapper\<close>

lemma reindex_loop_indices:
  "map rp_index (fst (reindex_loop pls n rps cmap)) = map rp_index rps @ [n..<n + length pls]"
proof (induction pls arbitrary: n rps cmap)
  case Nil
  then show ?case by simp
next
  case (Cons pp pps)
  have "[n..<n + length (pp # pps)] = n # [Suc n..<Suc n + length pps]"
    using upt_conv_Cons[of n "n + length (pp # pps)"] by simp
  then show ?case using Cons.IH[of "n + 1"] by simp
qed

lemma reindex_loop_codes:
  "map rp_code (fst (reindex_loop pls n rps cmap)) = map rp_code rps @ map pp_code pls"
  by (induction pls arbitrary: n rps cmap) simp_all

lemma reindex_loop_dom:
  "dom (map_of (snd (reindex_loop pls n rps cmap))) = dom (map_of cmap) \<union> pp_code ` set pls"
  by (induction pls arbitrary: n rps cmap) (auto simp: update_conv)

lemma reindex_loop_bounds:
  "\<forall>c i. map_of cmap c = Some i \<longrightarrow> lo \<le> i \<and> i < n \<Longrightarrow> lo \<le> n \<Longrightarrow>
   map_of (snd (reindex_loop pls n rps cmap)) c = Some i \<Longrightarrow> lo \<le> i \<and> i < n + length pls"
proof (induction pls arbitrary: n rps cmap)
  case Nil
  then show ?case by simp
next
  case (Cons pp pps)
  have inv: "\<forall>c i. map_of (AList.update (pp_code pp) n cmap) c = Some i \<longrightarrow> lo \<le> i \<and> i < n + 1"
    using Cons.prems(1,2) by (auto simp: update_conv split: if_splits) (metis less_SucI)
  have "lo \<le> i \<and> i < (n + 1) + length pps"
    using Cons.IH[OF inv _ ] Cons.prems by simp
  then show ?case by simp
qed

lemma reindex_loop_inj:
  "inj_on (map_of cmap) (dom (map_of cmap)) \<Longrightarrow>
   \<forall>c i. map_of cmap c = Some i \<longrightarrow> i < n \<Longrightarrow>
   inj_on (map_of (snd (reindex_loop pls n rps cmap)))
          (dom (map_of (snd (reindex_loop pls n rps cmap))))"
proof (induction pls arbitrary: n rps cmap)
  case Nil
  then show ?case by simp
next
  case (Cons pp pps)
  let ?c' = "AList.update (pp_code pp) n cmap"
  have b: "\<forall>c i. map_of ?c' c = Some i \<longrightarrow> i < n + 1"
    using Cons.prems(2) by (auto simp: update_conv split: if_splits) (metis less_SucI)
  have i: "inj_on (map_of ?c') (dom (map_of ?c'))"
    unfolding inj_on_def
  proof (intro ballI impI)
    fix x y assume x: "x \<in> dom (map_of ?c')" and y: "y \<in> dom (map_of ?c')"
      and e: "map_of ?c' x = map_of ?c' y"
    show "x = y"
    proof (cases "x = pp_code pp")
      case True
      then have "map_of ?c' y = Some n" using e by (simp add: update_conv)
      then show ?thesis using True Cons.prems(2)
        by (auto simp: update_conv split: if_splits)
    next
      case False
      then have xo: "map_of ?c' x = map_of cmap x" by (simp add: update_conv)
      then obtain v where v: "map_of cmap x = Some v" using x by (metis domD)
      then have "v < n" using Cons.prems(2) by blast
      then have "y \<noteq> pp_code pp" using e xo v by (auto simp: update_conv)
      then have "map_of cmap y = map_of cmap x" using e xo by (simp add: update_conv)
      then show ?thesis using Cons.prems(1) v unfolding inj_on_def
        by (metis domI)
    qed
  qed
  show ?case using Cons.IH[OF i b] by simp
qed

lemma reindex_loop_ran:
  "distinct (map pp_code pls) \<Longrightarrow> pp_code ` set pls \<inter> dom (map_of cmap) = {} \<Longrightarrow>
   ran (map_of (snd (reindex_loop pls n rps cmap))) = ran (map_of cmap) \<union> {n..<n + length pls}"
proof (induction pls arbitrary: n rps cmap)
  case Nil
  then show ?case by simp
next
  case (Cons pp pps)
  define c' where "c' = AList.update (pp_code pp) n cmap"
  have none: "map_of cmap (pp_code pp) = None" using Cons.prems(2) by auto
  have r: "ran (map_of c') = insert n (ran (map_of cmap))"
    using none by (simp add: c'_def update_conv' ran_map_upd)
  have dp: "distinct (map pp_code pps)" using Cons.prems(1) by simp
  have d: "pp_code ` set pps \<inter> dom (map_of c') = {}"
  proof -
    have "pp_code pp \<notin> pp_code ` set pps" using Cons.prems(1) by auto
    moreover have "pp_code ` set pps \<inter> dom (map_of cmap) = {}" using Cons.prems(2) by auto
    ultimately show ?thesis
      by (simp add: c'_def update_conv' dom_def disjoint_iff image_iff)
  qed
  have iv: "insert n {Suc n..<Suc (n + length pps)} = {n..<Suc (n + length pps)}"
    by (rule set_eqI) (simp, arith)
  have "ran (map_of (snd (reindex_loop (pp # pps) n rps cmap)))
        = ran (map_of c') \<union> {n + 1..<n + 1 + length pps}"
    unfolding reindex_loop.simps c'_def[symmetric] by (rule Cons.IH[OF dp d])
  also have "\<dots> = ran (map_of cmap) \<union> {n..<n + length (pp # pps)}"
  proof -
    have "insert n (ran (map_of cmap)) \<union> {Suc n..<Suc (n + length pps)}
          = ran (map_of cmap) \<union> insert n {Suc n..<Suc (n + length pps)}" by blast
    then show ?thesis unfolding r iv by simp
  qed
  finally show ?case .
qed

lemma reindex_placements_props: "reindex_placements pls = (rps, cmap) \<Longrightarrow>
     map rp_index rps = [1..<length pls + 1] \<and> map rp_code rps = map pp_code pls \<and>
     dom (map_of cmap) = pp_code ` set pls \<and>
     inj_on (map_of cmap) (pp_code ` set pls) \<and>
     (\<forall>c i. map_of cmap c = Some i \<longrightarrow> 1 \<le> i \<and> i \<le> length pls) \<and>
     (distinct (map pp_code pls) \<longrightarrow>
        bij_betw (\<lambda>c. the (map_of cmap c)) (pp_code ` set pls) {1..length pls})"
proof -
  assume a: "reindex_placements pls = (rps, cmap)"
  have rps: "rps = fst (reindex_loop pls 1 [] [])" and cm: "cmap = snd (reindex_loop pls 1 [] [])"
    using a by (simp_all add: reindex_placements_def)
  have 1: "map rp_index rps = [1..<length pls + 1]"
    using reindex_loop_indices[of pls 1 "[]" "[]"] rps by simp
  have 2: "map rp_code rps = map pp_code pls"
    using reindex_loop_codes[of pls 1 "[]" "[]"] rps by simp
  have 3: "dom (map_of cmap) = pp_code ` set pls"
    using reindex_loop_dom[of pls 1 "[]" "[]"] cm by simp
  have 4: "inj_on (map_of cmap) (pp_code ` set pls)"
    using reindex_loop_inj[of "[]" 1 pls "[]"] cm 3 by simp
  have 5: "\<forall>c i. map_of cmap c = Some i \<longrightarrow> 1 \<le> i \<and> i \<le> length pls"
  proof (intro allI impI)
    fix c i assume "map_of cmap c = Some i"
    then have "1 \<le> i \<and> i < 1 + length pls"
      using reindex_loop_bounds[of "[]" 1 1 pls "[]" c i] cm by simp
    then show "1 \<le> i \<and> i \<le> length pls" by arith
  qed
  have 6: "bij_betw (\<lambda>c. the (map_of cmap c)) (pp_code ` set pls) {1..length pls}"
    if d: "distinct (map pp_code pls)"
  proof -
    have r: "ran (map_of cmap) = {1..<1 + length pls}"
      using reindex_loop_ran[OF d, of "[]" 1 "[]"] cm by simp
    have inj: "inj_on (\<lambda>c. the (map_of cmap c)) (pp_code ` set pls)"
      using 4 3 unfolding inj_on_def by (metis domD option.sel)
    have img: "(\<lambda>c. the (map_of cmap c)) ` (pp_code ` set pls) = ran (map_of cmap)"
    proof (intro set_eqI iffI)
      fix v assume "v \<in> (\<lambda>c. the (map_of cmap c)) ` (pp_code ` set pls)"
      then obtain c where c: "c \<in> pp_code ` set pls" and v: "v = the (map_of cmap c)" by blast
      then obtain w where "map_of cmap c = Some w" using 3 by (metis domD)
      then show "v \<in> ran (map_of cmap)" using v by (auto simp: ran_def)
    next
      fix v assume "v \<in> ran (map_of cmap)"
      then obtain c where c: "map_of cmap c = Some v" by (auto simp: ran_def)
      then have "c \<in> pp_code ` set pls" using 3 by (metis domI)
      then show "v \<in> (\<lambda>c. the (map_of cmap c)) ` (pp_code ` set pls)"
        using c by (metis image_eqI option.sel)
    qed
    show ?thesis unfolding bij_betw_def using inj img r by auto
  qed
  show ?thesis using 1 2 3 4 5 6 by blast
qed

lemma aggregate_step_other: "j \<noteq> i \<Longrightarrow> map_of (aggregate_step i gc m) j = map_of m j"
  by (simp add: aggregate_step_def Let_def update_conv')

lemma aggregate_step_dom: "dom (map_of (aggregate_step i gc m)) = insert i (dom (map_of m))"
  by (simp add: aggregate_step_def Let_def update_conv')

lemma aggregate_step_distinct: "distinct (map fst m) \<Longrightarrow> distinct (map fst (aggregate_step i gc m))"
  by (simp add: aggregate_step_def Let_def distinct_update)

lemma aggregate_step_count:
  "count_of (aggregate_step i gc m) j = count_of m j + (if j = i then gc_count gc else 0)"
  by (simp add: aggregate_step_def count_of_def Let_def update_conv' split: option.splits)

lemma aggregate_step_ages:
  "ages_in (aggregate_step i gc m) j = ages_in m j @ (if j = i then ages_of_group gc else [])"
  by (simp add: aggregate_step_def ages_in_def Let_def update_conv' split: option.splits)

lemma aggregate_step_child_keep:
  "child_at m j \<Longrightarrow> child_at (aggregate_step i gc m) j"
  by (cases "j = i") (auto simp: aggregate_step_def child_at_def Let_def update_conv' split: option.splits)

lemma aggregate_step_child_new:
  "is_child_code (age_q_code_of gc) \<Longrightarrow> child_at (aggregate_step i gc m) i"
  by (auto simp: aggregate_step_def child_at_def Let_def update_conv' split: option.splits)

lemma aggregate_loop_total:
  "\<forall>gc\<in>set gcs. \<exists>i. reservation_idx_for pls cmap gc = Inr i \<Longrightarrow>
   \<exists>m'. aggregate_loop pls cmap gcs m = Inr m'"
proof (induction gcs arbitrary: m)
  case Nil
  then show ?case by simp
next
  case (Cons gc gcs)
  then obtain i where "reservation_idx_for pls cmap gc = Inr i" by auto
  then show ?case using Cons by simp
qed

lemma aggregate_loop_matched:
  "aggregate_loop pls cmap gcs m = Inr m' \<Longrightarrow> gc \<in> set gcs \<Longrightarrow>
   \<exists>i. reservation_idx_for pls cmap gc = Inr i"
proof (induction gcs arbitrary: m)
  case Nil
  then show ?case by simp
next
  case (Cons g gcs)
  then show ?case by (auto split: sum.splits)
qed

lemma aggregate_loop_count:
  "aggregate_loop pls cmap gcs m = Inr m' \<Longrightarrow>
   count_of m' j = count_of m j + sum_list (map gc_count (groups_for pls cmap gcs j))"
proof (induction gcs arbitrary: m)
  case Nil
  then show ?case by simp
next
  case (Cons g gcs)
  from Cons.prems obtain i where i: "reservation_idx_for pls cmap g = Inr i"
    and r: "aggregate_loop pls cmap gcs (aggregate_step i g m) = Inr m'"
    by (auto split: sum.splits)
  have "count_of m' j = count_of (aggregate_step i g m) j + sum_list (map gc_count (groups_for pls cmap gcs j))"
    by (rule Cons.IH[OF r])
  then show ?case using i
    by (simp add: aggregate_step_count)
qed

lemma aggregate_loop_ages:
  "aggregate_loop pls cmap gcs m = Inr m' \<Longrightarrow>
   ages_in m' j = ages_in m j @ concat (map ages_of_group (groups_for pls cmap gcs j))"
proof (induction gcs arbitrary: m)
  case Nil
  then show ?case by simp
next
  case (Cons g gcs)
  from Cons.prems obtain i where i: "reservation_idx_for pls cmap g = Inr i"
    and r: "aggregate_loop pls cmap gcs (aggregate_step i g m) = Inr m'"
    by (auto split: sum.splits)
  have "ages_in m' j = ages_in (aggregate_step i g m) j @ concat (map ages_of_group (groups_for pls cmap gcs j))"
    by (rule Cons.IH[OF r])
  then show ?case using i
    by (simp add: aggregate_step_ages)
qed

lemma aggregate_loop_dom:
  "aggregate_loop pls cmap gcs m = Inr m' \<Longrightarrow>
   dom (map_of m') = dom (map_of m) \<union> {i. groups_for pls cmap gcs i \<noteq> []}"
proof (induction gcs arbitrary: m)
  case Nil
  then show ?case by simp
next
  case (Cons g gcs)
  from Cons.prems obtain i where i: "reservation_idx_for pls cmap g = Inr i"
    and r: "aggregate_loop pls cmap gcs (aggregate_step i g m) = Inr m'"
    by (auto split: sum.splits)
  have "dom (map_of m') = dom (map_of (aggregate_step i g m)) \<union> {i. groups_for pls cmap gcs i \<noteq> []}"
    by (rule Cons.IH[OF r])
  then show ?case using i
    by (auto simp: aggregate_step_dom)
qed

lemma aggregate_loop_distinct:
  "aggregate_loop pls cmap gcs m = Inr m' \<Longrightarrow> distinct (map fst m) \<Longrightarrow> distinct (map fst m')"
proof (induction gcs arbitrary: m)
  case Nil
  then show ?case by simp
next
  case (Cons g gcs)
  from Cons.prems obtain i where i: "reservation_idx_for pls cmap g = Inr i"
    and r: "aggregate_loop pls cmap gcs (aggregate_step i g m) = Inr m'"
    by (auto split: sum.splits)
  show ?case by (rule Cons.IH[OF r aggregate_step_distinct[OF Cons.prems(2)]])
qed

lemma aggregate_loop_child_keep:
  "aggregate_loop pls cmap gcs m = Inr m' \<Longrightarrow> child_at m j \<Longrightarrow> child_at m' j"
proof (induction gcs arbitrary: m)
  case Nil
  then show ?case by simp
next
  case (Cons g gcs)
  from Cons.prems obtain i where i: "reservation_idx_for pls cmap g = Inr i"
    and r: "aggregate_loop pls cmap gcs (aggregate_step i g m) = Inr m'"
    by (auto split: sum.splits)
  show ?case by (rule Cons.IH[OF r aggregate_step_child_keep[OF Cons.prems(2)]])
qed

lemma aggregate_loop_child:
  "aggregate_loop pls cmap gcs m = Inr m' \<Longrightarrow>
   gc \<in> set (groups_for pls cmap gcs j) \<Longrightarrow> is_child_code (age_q_code_of gc) \<Longrightarrow>
   child_at m' j"
proof (induction gcs arbitrary: m)
  case Nil
  then show ?case by simp
next
  case (Cons g gcs)
  from Cons.prems obtain i where i: "reservation_idx_for pls cmap g = Inr i"
    and r: "aggregate_loop pls cmap gcs (aggregate_step i g m) = Inr m'"
    by (auto split: sum.splits)
  show ?case
  proof (cases "gc = g \<and> i = j")
    case True
    then have "child_at (aggregate_step i g m) j"
      using aggregate_step_child_new Cons.prems(3) by blast
    then show ?thesis by (rule aggregate_loop_child_keep[OF r])
  next
    case False
    then have "gc \<in> set (groups_for pls cmap gcs j)"
      using Cons.prems(2) i by (auto split: if_splits)
    then show ?thesis using Cons.IH[OF r] Cons.prems(3) by blast
  qed
qed

lemma build_guest_counts_ok:
  "\<forall>p\<in>set m. 1 \<le> ag_count (snd p) \<Longrightarrow>
   build_guest_counts m logs acc =
     (logs @ concat (map (\<lambda>(i, e). age_warning i e) m),
      Inr (acc @ map (\<lambda>(i, e). guest_count_detail i e) m))"
  by (induction m arbitrary: logs acc) auto

lemma build_guest_counts_fails:
  "\<exists>p\<in>set m. ag_count (snd p) < 1 \<Longrightarrow>
   \<exists>logs'. build_guest_counts m logs acc = (logs', Inl ValidationError)"
proof (induction m arbitrary: logs acc)
  case Nil
  then show ?case by simp
next
  case (Cons p m)
  obtain i e where p: "p = (i, e)" by (cases p)
  show ?case
  proof (cases "ag_count e < 1")
    case True
    then show ?thesis using p by simp
  next
    case False
    then have "\<exists>p\<in>set m. ag_count (snd p) < 1" using Cons.prems p by auto
    from Cons.IH[OF this] show ?thesis using p False by simp
  qed
qed

lemma build_guest_counts_Inr:
  assumes "build_guest_counts m logs acc = (logs', Inr gcs)"
  shows "(\<forall>p\<in>set m. 1 \<le> ag_count (snd p))
       \<and> logs' = logs @ concat (map (\<lambda>(i, e). age_warning i e) m)
       \<and> gcs = acc @ map (\<lambda>(i, e). guest_count_detail i e) m"
proof (cases "\<forall>p\<in>set m. 1 \<le> ag_count (snd p)")
  case True
  then show ?thesis using assms build_guest_counts_ok[OF True, of logs acc] by simp
next
  case False
  then have "\<exists>p\<in>set m. ag_count (snd p) < 1" by (auto simp: not_le)
  then show ?thesis using build_guest_counts_fails[of m logs acc] assms by auto
qed

lemma num_guests_for_slot_map:
  "num_guests_for_slot (map (\<lambda>(i, e). guest_count_detail i e) m) j = count_of m j"
  by (induction m) (auto simp: num_guests_for_slot_def count_of_def guest_count_detail_def)

lemma count_list_replicate_eq:
  "count_list (replicate n x) y = (if x = y then n else 0)"
  by (induction n) auto

lemma count_list_concat_replicate:
  "distinct js \<Longrightarrow>
   count_list (concat (map (\<lambda>j. replicate (f j) j) js)) i = (if i \<in> set js then f i else 0)"
  by (induction js) (auto simp: count_list_replicate_eq)

lemma length_concat_replicate:
  "length (concat (map (\<lambda>j. replicate (f j) j) js)) = sum_list (map f js)"
  by (induction js) auto

lemma slots_as_indices:
  "guest_assignment_slots rps gcs =
   concat (map (\<lambda>j. replicate (num_guests_for_slot gcs j) j) (map rp_index rps))"
  by (simp add: guest_assignment_slots_def comp_def)

lemma sum_list_delta:
  "distinct js \<Longrightarrow> j0 \<in> set js \<Longrightarrow> sum_list (map (\<lambda>j. if j = j0 then (c::nat) else 0) js) = c"
  by (induction js) (auto simp: sum_list_0)

lemma sum_list_delta0:
  "j0 \<notin> set js \<Longrightarrow> sum_list (map (\<lambda>j. if j = j0 then (c::nat) else 0) js) = 0"
  by (induction js) auto

lemma sum_over_indices:
  "distinct js \<Longrightarrow>
   \<forall>gc\<in>set gcs. \<exists>j\<in>set js. reservation_idx_for pls cmap gc = Inr j \<Longrightarrow>
   sum_list (map (\<lambda>j. sum_list (map gc_count (groups_for pls cmap gcs j))) js)
     = sum_list (map gc_count gcs)"
proof (induction gcs)
  case Nil
  then show ?case by (simp add: sum_list_0)
next
  case (Cons g gcs)
  then obtain j0 where j0: "j0 \<in> set js" "reservation_idx_for pls cmap g = Inr j0" by auto
  have eq: "(\<lambda>j. sum_list (map gc_count (groups_for pls cmap (g # gcs) j)))
          = (\<lambda>j. (if j = j0 then gc_count g else 0) + sum_list (map gc_count (groups_for pls cmap gcs j)))"
    using j0(2) by (auto simp: fun_eq_iff)
  have "sum_list (map (\<lambda>j. sum_list (map gc_count (groups_for pls cmap (g # gcs) j))) js)
      = sum_list (map (\<lambda>j. if j = j0 then gc_count g else 0) js)
        + sum_list (map (\<lambda>j. sum_list (map gc_count (groups_for pls cmap gcs j))) js)"
    unfolding eq by (simp add: sum_list_addf)
  also have "\<dots> = gc_count g + sum_list (map gc_count gcs)"
    using sum_list_delta[OF Cons.prems(1) j0(1)] Cons.IH[OF Cons.prems(1)] Cons.prems(2) by simp
  finally show ?case by simp
qed

lemma reservation_idx_for_Inr:
  "reservation_idx_for pls cmap gc = Inr i \<Longrightarrow> i \<in> ran (map_of cmap)"
  by (auto simp: reservation_idx_for_def ran_def split: option.splits)

lemma reservation_idx_for_found:
  "gc_placement_index gc \<in> pp_index ` set pls \<Longrightarrow> dom (map_of cmap) = pp_code ` set pls \<Longrightarrow>
   \<exists>i. reservation_idx_for pls cmap gc = Inr i"
proof -
  assume a: "gc_placement_index gc \<in> pp_index ` set pls" and d: "dom (map_of cmap) = pp_code ` set pls"
  from a obtain t where t: "find (\<lambda>pp. pp_index pp = gc_placement_index gc) pls = Some t"
    by (cases "find (\<lambda>pp. pp_index pp = gc_placement_index gc) pls") (auto simp: find_None_iff)
  then have "t \<in> set pls" by (auto simp: find_Some_iff)
  then have "pp_code t \<in> dom (map_of cmap)" using d by auto
  then obtain i where "map_of cmap (pp_code t) = Some i" by auto
  then show ?thesis using t by (simp add: reservation_idx_for_def)
qed

lemma reservation_idx_for_unmatched:
  "gc_placement_index gc \<notin> pp_index ` set pls \<Longrightarrow>
   reservation_idx_for pls cmap gc = Inl (Inl (UnmatchedGuestGroup (gc_placement_index gc)))"
proof -
  assume "gc_placement_index gc \<notin> pp_index ` set pls"
  then have "find (\<lambda>pp. pp_index pp = gc_placement_index gc) pls = None"
    by (simp add: find_None_iff image_iff) metis
  then show ?thesis by (simp add: reservation_idx_for_def)
qed

lemma map_placements_and_counts_Inr:
  assumes "map_placements_and_counts offer = (logs, Inr (rps, cmap, gcs))"
  shows "\<exists>rt0 rts m. rs_room_types offer = rt0 # rts \<and> rt_placements rt0 \<noteq> []
           \<and> rs_guests offer \<noteq> []
           \<and> reindex_placements (rt_placements rt0) = (rps, cmap)
           \<and> aggregate_loop (rt_placements rt0) cmap (rs_guests offer) [] = Inr m
           \<and> build_guest_counts m [] [] = (logs, Inr gcs)"
  using assms unfolding map_placements_and_counts_def
  by (auto split: list.splits if_splits prod.splits sum.splits)

lemma new_index_of_eq:
  "rs_room_types offer = rt0 # rts \<Longrightarrow> reindex_placements (rt_placements rt0) = (rps, cmap) \<Longrightarrow>
   (new_index_of offer gc = Some i) = (reservation_idx_for (rt_placements rt0) cmap gc = Inr i)"
  by (auto simp: new_index_of_def offer_placements_def offer_code_map_def split: sum.splits)

lemma groups_under_eq:
  "rs_room_types offer = rt0 # rts \<Longrightarrow> reindex_placements (rt_placements rt0) = (rps, cmap) \<Longrightarrow>
   groups_under offer i = groups_for (rt_placements rt0) cmap (rs_guests offer) i"
  unfolding groups_under_def by (simp add: new_index_of_eq)

lemma count_of_empty: "count_of [] j = 0" and ages_in_empty: "ages_in [] j = []"
  by (simp_all add: count_of_def ages_in_def)

lemma slots_of_mapped_offer:
  assumes ok: "map_placements_and_counts offer = (logs, Inr (rps, cmap, gcs))"
  shows "length (guest_assignment_slots rps gcs) = total_guest_capacity offer"
    and "count_list (guest_assignment_slots rps gcs) i = aggregated_count offer i"
proof -
  from map_placements_and_counts_Inr[OF ok] obtain rt0 rts m where
    rt: "rs_room_types offer = rt0 # rts" and
    re: "reindex_placements (rt_placements rt0) = (rps, cmap)" and
    ag: "aggregate_loop (rt_placements rt0) cmap (rs_guests offer) [] = Inr m" and
    bg: "build_guest_counts m [] [] = (logs, Inr gcs)" by blast
  let ?pls = "rt_placements rt0"
  let ?gs = "rs_guests offer"
  have idx: "map rp_index rps = [1..<length ?pls + 1]" using reindex_placements_props[OF re] by blast
  have bnd: "\<forall>c i. map_of cmap c = Some i \<longrightarrow> 1 \<le> i \<and> i \<le> length ?pls"
    using reindex_placements_props[OF re] by blast
  have gcs: "gcs = map (\<lambda>(i, e). guest_count_detail i e) m"
    using build_guest_counts_Inr[OF bg] by simp
  have n: "\<And>j. num_guests_for_slot gcs j = sum_list (map gc_count (groups_for ?pls cmap ?gs j))"
    unfolding gcs num_guests_for_slot_map using aggregate_loop_count[OF ag] by (simp add: count_of_empty)
  have sl: "guest_assignment_slots rps gcs =
      concat (map (\<lambda>j. replicate (sum_list (map gc_count (groups_for ?pls cmap ?gs j))) j) [1..<length ?pls + 1])"
    unfolding slots_as_indices idx using n by simp
  have inr: "\<forall>gc\<in>set ?gs. \<exists>j\<in>set [1..<length ?pls + 1]. reservation_idx_for ?pls cmap gc = Inr j"
  proof
    fix gc assume "gc \<in> set ?gs"
    from aggregate_loop_matched[OF ag this] obtain j where j: "reservation_idx_for ?pls cmap gc = Inr j" by blast
    then have "j \<in> ran (map_of cmap)" by (rule reservation_idx_for_Inr)
    then have "1 \<le> j \<and> j \<le> length ?pls" using bnd by (auto simp: ran_def)
    then show "\<exists>j\<in>set [1..<length ?pls + 1]. reservation_idx_for ?pls cmap gc = Inr j"
      using j by auto
  qed
  show "length (guest_assignment_slots rps gcs) = total_guest_capacity offer"
    unfolding sl length_concat_replicate total_guest_capacity_def
    by (rule sum_over_indices[OF _ inr]) simp
  have zero: "sum_list (map gc_count (groups_for ?pls cmap ?gs i)) = 0" if "i \<notin> set [1..<length ?pls + 1]"
  proof -
    have "groups_for ?pls cmap ?gs i = []"
      using inr that by (auto simp: filter_empty_conv)
    then show ?thesis by simp
  qed
  show "count_list (guest_assignment_slots rps gcs) i = aggregated_count offer i"
    unfolding sl aggregated_count_def groups_under_eq[OF rt re]
    using zero by (simp add: count_list_concat_replicate)
qed

lemma map_placements_and_counts_total:
  assumes rt: "rs_room_types offer = rt0 # rts" and pl: "rt_placements rt0 \<noteq> []"
    and g: "rs_guests offer \<noteq> []"
    and matched: "\<forall>gc\<in>set (rs_guests offer). gc_placement_index gc \<in> pp_index ` set (rt_placements rt0)"
    and pos: "\<forall>gc\<in>set (rs_guests offer). \<forall>i. new_index_of offer gc = Some i \<longrightarrow> 1 \<le> aggregated_count offer i"
  shows "\<exists>logs rps gcs. map_placements_and_counts offer = (logs, Inr (rps, offer_code_map offer, gcs))"
proof -
  let ?pls = "rt_placements rt0"
  let ?gs = "rs_guests offer"
  obtain rps cmap where re: "reindex_placements ?pls = (rps, cmap)" by (cases "reindex_placements ?pls")
  have cm: "offer_code_map offer = cmap" using rt re by (simp add: offer_code_map_def offer_placements_def)
  have dom: "dom (map_of cmap) = pp_code ` set ?pls" using reindex_placements_props[OF re] by blast
  have "\<forall>gc\<in>set ?gs. \<exists>i. reservation_idx_for ?pls cmap gc = Inr i"
    using matched reservation_idx_for_found[OF _ dom] by blast
  from aggregate_loop_total[OF this] obtain m where
    ag: "aggregate_loop ?pls cmap ?gs [] = Inr m" by blast
  have "\<forall>p\<in>set m. 1 \<le> ag_count (snd p)"
  proof
    fix p assume p: "p \<in> set m"
    have d: "distinct (map fst m)" using aggregate_loop_distinct[OF ag] by simp
    have mo: "map_of m (fst p) = Some (snd p)" using d p by simp
    then have "fst p \<in> dom (map_of m)" by blast
    then have "groups_for ?pls cmap ?gs (fst p) \<noteq> []"
      using aggregate_loop_dom[OF ag] by simp
    then obtain gc where gc: "gc \<in> set ?gs" "reservation_idx_for ?pls cmap gc = Inr (fst p)"
      by (auto simp: filter_empty_conv)
    then have "new_index_of offer gc = Some (fst p)" using new_index_of_eq[OF rt re] by simp
    then have "1 \<le> aggregated_count offer (fst p)" using pos gc(1) by blast
    moreover have "count_of m (fst p) = aggregated_count offer (fst p)"
      using aggregate_loop_count[OF ag, of "fst p"]
      by (simp add: count_of_empty aggregated_count_def groups_under_eq[OF rt re])
    ultimately show "1 \<le> ag_count (snd p)" using mo by (simp add: count_of_def)
  qed
  from build_guest_counts_ok[OF this, of "[]" "[]"]
  obtain logs gcs where bg: "build_guest_counts m [] [] = (logs, Inr gcs)" by blast
  have "map_placements_and_counts offer = (logs, Inr (rps, cmap, gcs))"
    unfolding map_placements_and_counts_def using rt pl g re ag bg by simp
  then show ?thesis using cm by blast
qed

lemma build_reservation_request_Inr:
  assumes "build_reservation_request cfg offer params = (logs, Inr req)"
  shows "\<exists>rps cmap. map_placements_and_counts offer = (logs, Inr (rps, cmap, req_guest_counts req))
           \<and> req_placements req = rps
           \<and> length (crp_guests params) = total_guest_capacity offer
           \<and> req_guests req = map2 bind_guest (crp_guests params)
                                 (guest_assignment_slots rps (req_guest_counts req))
           \<and> req_guarantee_code req = crp_guarantee_code params"
  using assms unfolding build_reservation_request_def Let_def
  by (auto split: if_splits prod.splits sum.splits list.splits)

lemma card_two_distinct:
  "a1 \<in> set xs \<Longrightarrow> a2 \<in> set xs \<Longrightarrow> a1 \<noteq> a2 \<Longrightarrow> card (set xs) \<noteq> 1"
  by (auto simp: card_1_singleton_iff)

lemma first_child_age_aux:
  assumes ok: "build_reservation_request cfg offer params = (logs, Inr req)"
    and gc: "gc \<in> set (groups_under offer idx)" and child: "is_child_code (age_q_code_of gc)"
    and a1: "a1 \<in> set (aggregated_ages offer idx)" and a2: "a2 \<in> set (aggregated_ages offer idx)"
    and ne: "a1 \<noteq> a2"
  shows "(\<exists>e\<in>set (req_guest_counts req). gcd_placement_index e = idx)
       \<and> (\<forall>e\<in>set (req_guest_counts req). gcd_placement_index e = idx \<longrightarrow>
             gcd_age e = Some (hd (aggregated_ages offer idx)))
       \<and> MultipleChildAgesWarning idx (aggregated_ages offer idx) (hd (aggregated_ages offer idx))
           \<in> set logs"
proof -
  from build_reservation_request_Inr[OF ok] obtain rps cmap where
    mp: "map_placements_and_counts offer = (logs, Inr (rps, cmap, req_guest_counts req))" by blast
  from map_placements_and_counts_Inr[OF mp] obtain rt0 rts m where
    rt: "rs_room_types offer = rt0 # rts" and
    re: "reindex_placements (rt_placements rt0) = (rps, cmap)" and
    ag: "aggregate_loop (rt_placements rt0) cmap (rs_guests offer) [] = Inr m" and
    bg: "build_guest_counts m [] [] = (logs, Inr (req_guest_counts req))" by blast
  let ?ages = "aggregated_ages offer idx"
  have gs: "groups_under offer idx = groups_for (rt_placements rt0) cmap (rs_guests offer) idx"
    by (rule groups_under_eq[OF rt re])
  have d: "distinct (map fst m)" using aggregate_loop_distinct[OF ag] by simp
  have ch: "child_at m idx" using aggregate_loop_child[OF ag] gc child unfolding gs by blast
  then obtain e where e: "map_of m idx = Some e" and ec: "is_child_code (ag_age_qualifying_code e)"
    by (auto simp: child_at_def split: option.splits)
  have ea: "ag_ages_list e = ?ages"
    using aggregate_loop_ages[OF ag, of idx] e
    by (simp add: ages_in_def aggregated_ages_def gs)
  have ne': "?ages \<noteq> []" using a1 by auto
  have c1: "card (set ?ages) \<noteq> 1" by (rule card_two_distinct[OF a1 a2 ne])
  have mem: "(idx, e) \<in> set m" using e by (rule map_of_SomeD)
  have logs: "logs = concat (map (\<lambda>(i, e). age_warning i e) m)"
    and gcs: "req_guest_counts req = map (\<lambda>(i, e). guest_count_detail i e) m"
    using build_guest_counts_Inr[OF bg] by simp_all
  have w: "age_warning idx e = [MultipleChildAgesWarning idx ?ages (hd ?ages)]"
    using ec ea ne' c1 by (simp add: age_warning_def)
  have 3: "MultipleChildAgesWarning idx ?ages (hd ?ages) \<in> set logs"
    unfolding logs using mem w by force
  have s: "age_to_send e = Some (hd ?ages)" using ec ea ne' by (simp add: age_to_send_def)
  have 1: "\<exists>x\<in>set (req_guest_counts req). gcd_placement_index x = idx"
    unfolding gcs using mem by (force simp: guest_count_detail_def)
  have 2: "\<forall>x\<in>set (req_guest_counts req). gcd_placement_index x = idx \<longrightarrow> gcd_age x = Some (hd ?ages)"
  proof (intro ballI impI)
    fix x assume x: "x \<in> set (req_guest_counts req)" and xi: "gcd_placement_index x = idx"
    then obtain i e' where ie: "(i, e') \<in> set m" "x = guest_count_detail i e'"
      unfolding gcs by auto
    then have "i = idx" using xi by (simp add: guest_count_detail_def)
    then have "e' = e" using ie(1) d e by (metis map_of_is_SomeI option.inject)
    then show "gcd_age x = Some (hd ?ages)" using ie(2) s by (simp add: guest_count_detail_def)
  qed
  show ?thesis using 1 2 3 by blast
qed


section \<open>The reservation mapper: claims\<close>

text \<open>
  Claim C1. When the Offer is in the cache and the number of guests supplied differs
  from the sum of the guest counts of the Offer's groups, the reservation tool returns
  the error result carrying the guest-count mismatch (expected and supplied numbers),
  sends no request to the provider (the guest list is neither truncated nor padded),
  and leaves the Offer Cache as it was, so the Offer is still found under the same
  \<open>option_id\<close>.
\<close>

theorem guest_count_mismatch_fails_and_keeps_offer:
  assumes "cache (crp_booking_option_id params) = Some offer"
    and "length (crp_guests params) \<noteq> total_guest_capacity offer"
  shows "create_exely_reservation_and_get_link cfg reserve cache params =
           \<lparr>ro_result = Inr (error_result (GuestCountMismatch (total_guest_capacity offer)
                                             (length (crp_guests params)))),
            ro_logs = [], ro_sent = None, ro_cache = cache\<rparr>
         \<and> ro_cache (create_exely_reservation_and_get_link cfg reserve cache params)
              (crp_booking_option_id params) = Some offer"
  using assms
  by (simp add: create_exely_reservation_and_get_link_def build_reservation_request_def Let_def)

text \<open>Claim C1, at an Offer for three guests and a list of two guests.\<close>

theorem guest_count_mismatch_witness:
  "create_exely_reservation_and_get_link example_settings (\<lambda>r. Inl (PyExc ValueError))
       [''opt-1'' \<mapsto> example_offer [example_placement 0 ''A''] [example_group 0 3 None]]
       (example_params ''opt-1'' ''G1'' [example_guest ''Ann'', example_guest ''Bob''])
     = \<lparr>ro_result = Inr (error_result (GuestCountMismatch 3 2)), ro_logs = [], ro_sent = None,
        ro_cache = [''opt-1'' \<mapsto> example_offer [example_placement 0 ''A''] [example_group 0 3 None]]\<rparr>"
proof -
  let ?offer = "example_offer [example_placement 0 ''A''] [example_group 0 3 None]"
  let ?params = "example_params ''opt-1'' ''G1'' [example_guest ''Ann'', example_guest ''Bob'']"
  have c: "[''opt-1'' \<mapsto> ?offer] (crp_booking_option_id ?params) = Some ?offer"
    by (simp add: example_params_def)
  have k: "total_guest_capacity ?offer = 3"
    by (simp add: total_guest_capacity_def example_offer_def example_group_def)
  have n: "length (crp_guests ?params) \<noteq> total_guest_capacity ?offer"
    unfolding k by (simp add: example_params_def)
  have l: "length (crp_guests ?params) = 2" by (simp add: example_params_def)
  show ?thesis
    using guest_count_mismatch_fails_and_keeps_offer[where cache = "[''opt-1'' \<mapsto> ?offer]"
        and params = ?params and offer = ?offer and cfg = example_settings
        and reserve = "\<lambda>r. Inl (PyExc ValueError)"] c n
    unfolding k l by simp
qed




text \<open>
  Claim C5, amended. For an Offer whose first room type has placements, that has at
  least one guest-count group, whose every group refers to a placement of the first
  room type, and in which every new placement index that receives a group aggregates to
  at least one guest, the mapper reaches the slot list, the list has exactly \<open>K\<close>
  entries (\<open>K\<close> the Offer's total declared guest count) and every new placement index
  occurs in it exactly as often as its aggregated guest count.
\<close>

theorem slot_list_has_one_entry_per_guest:
  assumes pl: "offer_placements offer \<noteq> []"
    and g: "rs_guests offer \<noteq> []"
    and matched: "\<forall>gc\<in>set (rs_guests offer).
                    gc_placement_index gc \<in> pp_index ` set (offer_placements offer)"
    and pos: "\<forall>gc\<in>set (rs_guests offer). \<forall>i.
                new_index_of offer gc = Some i \<longrightarrow> 1 \<le> aggregated_count offer i"
  shows "\<exists>logs rps gcs.
           map_placements_and_counts offer = (logs, Inr (rps, offer_code_map offer, gcs))
           \<and> length (guest_assignment_slots rps gcs) = total_guest_capacity offer
           \<and> (\<forall>i. count_list (guest_assignment_slots rps gcs) i = aggregated_count offer i)"
proof -
  from pl obtain rt0 rts where rt: "rs_room_types offer = rt0 # rts"
    by (cases "rs_room_types offer") (auto simp: offer_placements_def)
  then have op: "offer_placements offer = rt_placements rt0" by (simp add: offer_placements_def)
  from map_placements_and_counts_total[OF rt pl[unfolded op] g matched[unfolded op] pos]
  obtain logs rps gcs where
    ok: "map_placements_and_counts offer = (logs, Inr (rps, offer_code_map offer, gcs))" by blast
  show ?thesis using ok slots_of_mapped_offer[OF ok] by blast
qed

text \<open>Claim C5, amended, at an Offer for two adults and one child in two placements.\<close>

theorem slot_list_witness:
  "total_guest_capacity two_adults_one_child = 3
   \<and> (\<exists>logs rps gcs.
         map_placements_and_counts two_adults_one_child
           = (logs, Inr (rps, offer_code_map two_adults_one_child, gcs))
         \<and> guest_assignment_slots rps gcs = [1, 1, 2]
         \<and> length (guest_assignment_slots rps gcs) = total_guest_capacity two_adults_one_child)"
proof -
  let ?o = two_adults_one_child
  have k: "total_guest_capacity ?o = 3" by code_simp
  have pl: "offer_placements ?o \<noteq> []" by code_simp
  have g: "rs_guests ?o \<noteq> []" by code_simp
  have "list_all (\<lambda>gc. gc_placement_index gc \<in> pp_index ` set (offer_placements ?o)) (rs_guests ?o)"
    by code_simp
  then have matched: "\<forall>gc\<in>set (rs_guests ?o). gc_placement_index gc \<in> pp_index ` set (offer_placements ?o)"
    by (simp add: list_all_iff)
  have "list_all (\<lambda>gc. case new_index_of ?o gc of None \<Rightarrow> True
                        | Some i \<Rightarrow> 1 \<le> aggregated_count ?o i) (rs_guests ?o)"
    by code_simp
  then have pos: "\<forall>gc\<in>set (rs_guests ?o). \<forall>i. new_index_of ?o gc = Some i \<longrightarrow> 1 \<le> aggregated_count ?o i"
    unfolding list_all_iff by (auto split: option.splits)
  from slot_list_has_one_entry_per_guest[OF pl g matched pos]
  obtain logs rps gcs where
    ok: "map_placements_and_counts ?o = (logs, Inr (rps, offer_code_map ?o, gcs))" and
    len: "length (guest_assignment_slots rps gcs) = total_guest_capacity ?o" by blast
  have v: "map_placements_and_counts ?o =
     ([], Inr ([\<lparr>rp_index = 1, rp_kind = ''adult'', rp_code = ''AdultBed''\<rparr>,
                \<lparr>rp_index = 2, rp_kind = ''adult'', rp_code = ''ChildBed''\<rparr>],
               [(''AdultBed'', 1), (''ChildBed'', 2)],
               [\<lparr>gcd_count = 2, gcd_age_qualifying_code = ''adult'', gcd_placement_index = 1,
                 gcd_age = None\<rparr>,
                \<lparr>gcd_count = 1, gcd_age_qualifying_code = ''child'', gcd_placement_index = 2,
                 gcd_age = Some 6\<rparr>]))"
    by code_simp
  have "guest_assignment_slots rps gcs = [1, 1, 2]"
    using ok unfolding v by (auto, code_simp)
  then show ?thesis using k ok len by blast
qed

text \<open>
  Claim C5 as stated fails for an Offer with a guest-count group of count zero: the
  guest list of two passes the reconciliation, both groups refer to placements of the
  first room type, and the construction of the reservation guest count for the second
  placement raises a validation error (its count must be at least 1) before any slot
  list is built.
\<close>

theorem zero_count_group_raises:
  "total_guest_capacity zero_count_offer = length two_guests
   \<and> map (new_index_of zero_count_offer) (rs_guests zero_count_offer) = [Some 1, Some 2]
   \<and> map_placements_and_counts zero_count_offer = ([], Inl (Inr ValidationError))
   \<and> build_reservation_request example_settings zero_count_offer
        (example_params ''opt-1'' ''G1'' two_guests) = ([], Inl (Inr ValidationError))"
  by code_simp

text \<open>
  Claim C8. Whenever the mapper produces a reservation request, and the groups
  aggregated under new placement index \<open>idx\<close> include a child-qualified group and
  carry two different ages, the request has a guest-count entry for \<open>idx\<close>, every
  such entry sends the first age in encounter order, and the warning naming the index,
  the ages and the age sent is among the logged events.
\<close>

theorem first_child_age_is_sent_and_logged:
  assumes "build_reservation_request cfg offer params = (logs, Inr req)"
    and "gc \<in> set (groups_under offer idx)" and "is_child_code (age_q_code_of gc)"
    and "a1 \<in> set (aggregated_ages offer idx)" and "a2 \<in> set (aggregated_ages offer idx)"
    and "a1 \<noteq> a2"
  shows "(\<exists>e\<in>set (req_guest_counts req). gcd_placement_index e = idx)
       \<and> (\<forall>e\<in>set (req_guest_counts req). gcd_placement_index e = idx \<longrightarrow>
             gcd_age e = Some (hd (aggregated_ages offer idx)))
       \<and> MultipleChildAgesWarning idx (aggregated_ages offer idx) (hd (aggregated_ages offer idx))
           \<in> set logs"
  using first_child_age_aux[OF assms] .

text \<open>Claim C8, at an Offer with two children aged 5 and 7 in one placement.\<close>

theorem first_child_age_witness:
  "\<exists>logs req.
     build_reservation_request example_settings two_children_one_bed
       (example_params ''opt-1'' ''G1'' two_guests) = (logs, Inr req)
     \<and> aggregated_ages two_children_one_bed 1 = [5, 7]
     \<and> (\<exists>e\<in>set (req_guest_counts req). gcd_placement_index e = 1 \<and> gcd_age e = Some 5)
     \<and> MultipleChildAgesWarning 1 [5, 7] 5 \<in> set logs"
proof -
  let ?o = two_children_one_bed
  let ?p = "example_params ''opt-1'' ''G1'' two_guests"
  obtain logs r where b: "build_reservation_request example_settings ?o ?p = (logs, r)"
    by (cases "build_reservation_request example_settings ?o ?p")
  have "case snd (build_reservation_request example_settings ?o ?p) of
          Inr _ \<Rightarrow> True | Inl _ \<Rightarrow> False"
    by code_simp
  then obtain req where r: "r = Inr req" using b by (cases r) auto
  have ok: "build_reservation_request example_settings ?o ?p = (logs, Inr req)" using b r by simp
  have gc: "example_group 3 1 (Some 5) \<in> set (groups_under ?o 1)" by code_simp
  have ch: "is_child_code (age_q_code_of (example_group 3 1 (Some 5)))" by code_simp
  have ages: "aggregated_ages ?o 1 = [5, 7]" by code_simp
  have a1: "5 \<in> set (aggregated_ages ?o 1)" and a2: "7 \<in> set (aggregated_ages ?o 1)"
    unfolding ages by simp_all
  have ne: "(5::nat) \<noteq> 7" by simp
  from first_child_age_is_sent_and_logged[OF ok gc ch a1 a2 ne]
  have "(\<exists>e\<in>set (req_guest_counts req). gcd_placement_index e = 1)
       \<and> (\<forall>e\<in>set (req_guest_counts req). gcd_placement_index e = 1 \<longrightarrow> gcd_age e = Some 5)
       \<and> MultipleChildAgesWarning 1 [5, 7] 5 \<in> set logs"
    unfolding ages by simp
  then show ?thesis using ok ages by blast
qed

section \<open>The availability search: the caching loop\<close>











section \<open>The hotel metadata cache\<close>







section \<open>The provider client: failures\<close>






section \<open>The conversational turn\<close>



lemma reservation_tool_name:
  "reservation_tool \<noteq> []" "lower reservation_tool \<noteq> ''null''"
  "reservation_tool \<noteq> ''get_hotel_public_info''"
  "reservation_tool \<noteq> ''get_exely_booking_options''"
  "reservation_tool \<noteq> ''cancel_exely_reservation''"
  by code_simp+






lemma failed_completion_directive:
  "call_mcp_tool_orchestrator (process_natural_language_request (CompletionRaised e)) =
     JObj [(''_mcp_client_error_'', JBool True),
           (''message'', JStr (''LLM API call failed: '' @ le_str e)),
           (''details'', JStr (le_api_error_details e))]"
  by (simp add: process_natural_language_request_def get_llm_response_def
      call_mcp_tool_orchestrator_def has_key_def dict_get_def)

text \<open>
  Claim C9. What the code does when the completion call raises: whatever the exception,
  the turn clears the action and sends one message that depends only on the text of
  the exception, the generic technical-problem message unless that text itself holds one
  of the two phrases the bot looks for. The status the exception carries is not looked
  at, and no rate-limit notice is sent: for an exception with status 429 the user gets
  the generic message.
\<close>

theorem completion_failure_ignores_rate_limiting:
  "conversational_turn cfg strptime_ok reserve cache s (CompletionRaised e) =
     finish cache (s\<lparr>action := None\<rparr>)
       [if str_contains phrase_service_overloaded (lower (''LLM API call failed: '' @ le_str e))
           \<or> str_contains phrase_try_later (lower (''LLM API call failed: '' @ le_str e))
        then OrchestratorErrorText (''LLM API call failed: '' @ le_str e)
        else TechnicalProblem]
   \<and> le_status_code rate_limited = Some 429
   \<and> tr_messages (conversational_turn example_settings (\<lambda>d. True) provider_unused
         Map.empty new_session (CompletionRaised rate_limited)) = [TechnicalProblem]"
proof -
  have g: "conversational_turn cfg strptime_ok reserve cache s (CompletionRaised e) =
     finish cache (s\<lparr>action := None\<rparr>)
       [if str_contains phrase_service_overloaded (lower (''LLM API call failed: '' @ le_str e))
           \<or> str_contains phrase_try_later (lower (''LLM API call failed: '' @ le_str e))
        then OrchestratorErrorText (''LLM API call failed: '' @ le_str e)
        else TechnicalProblem]"
    unfolding conversational_turn_def failed_completion_directive
    by (simp add: handle_text_messages_async_def dict_get_def)
  have c: "le_status_code rate_limited = Some 429
   \<and> tr_messages (conversational_turn example_settings (\<lambda>d. True) provider_unused
         Map.empty new_session (CompletionRaised rate_limited)) = [TechnicalProblem]"
    by code_simp
  from g c show ?thesis by (rule conjI)
qed

text \<open>
  Claim C3. What the code does for a directive that names the reservation tool and
  carries the key \<^verbatim>\<open>"_llm_rate_limit_exceeded_"\<close> (here with the value \<^verbatim>\<open>false\<close>):
  the orchestrator returns it before the two identifiers are removed, and for a session
  that has selected nothing the bot keeps them. Two turns that differ only in the
  \<^verbatim>\<open>booking_option_id\<close> and \<^verbatim>\<open>guarantee_code\<close> of the directive send reservation
  requests for different hotels with different guarantee codes.
\<close>

theorem directive_ids_reach_the_reservation_request:
  "selected_option_id new_session = None \<and> selected_guarantee_code new_session = None
   \<and> map_option req_hotel_code
         (tr_sent (conversational_turn example_settings (\<lambda>d. True) provider_confirms
            two_offers new_session (ParsedJson (marked_directive (supplied_ids ''opt-A'' ''G1'')))))
       = Some ''508308''
   \<and> map_option req_guarantee_code
         (tr_sent (conversational_turn example_settings (\<lambda>d. True) provider_confirms
            two_offers new_session (ParsedJson (marked_directive (supplied_ids ''opt-A'' ''G1'')))))
       = Some ''G1''
   \<and> map_option req_hotel_code
         (tr_sent (conversational_turn example_settings (\<lambda>d. True) provider_confirms
            two_offers new_session (ParsedJson (marked_directive (supplied_ids ''opt-B'' ''G2'')))))
       = Some ''999999''
   \<and> map_option req_guarantee_code
         (tr_sent (conversational_turn example_settings (\<lambda>d. True) provider_confirms
            two_offers new_session (ParsedJson (marked_directive (supplied_ids ''opt-B'' ''G2'')))))
       = Some ''G2''"
  by code_simp


text \<open>Without that key the orchestrator removes the two identifiers from the
  arguments, and the turn does not depend on them.\<close>

lemma delete_after_update:
  "AList.delete k (AList.update k v al) = AList.delete k al"
  "k \<noteq> k' \<Longrightarrow> AList.delete k (AList.update k' v al) = AList.update k' v (AList.delete k al)"
  by (induct al) auto

lemma stripped_arguments:
  "AList.delete ''guarantee_code'' (AList.delete ''booking_option_id''
     (AList.update ''booking_option_id'' v (AList.update ''guarantee_code'' w args)))
   = AList.delete ''guarantee_code'' (AList.delete ''booking_option_id'' args)"
  by (simp add: delete_after_update)

lemma text_missing_details_nonempty: "text_missing_details \<noteq> []"
  by (simp add: text_missing_details_def)

lemma orchestrator_strips_directive_ids:
  "process_natural_language_request (ParsedJson (reservation_directive args)) =
     Inr (if AList.delete ''guarantee_code'' (AList.delete ''booking_option_id'' args) = []
          then JObj [(''tool_name'', JNull), (''arguments'', JObj []),
                     (''clarification_needed'', JStr text_missing_details)]
          else reservation_directive
                 (AList.delete ''guarantee_code'' (AList.delete ''booking_option_id'' args)))"
  by (simp add: process_natural_language_request_def get_llm_response_def
      reservation_directive_def has_key_def dict_get_def discard_context_arguments_def
      downgrade_without_arguments_def default_clarification_def reservation_tool_name Let_def
      text_missing_details_nonempty)

lemma stripped_ids_have_no_influence:
  "conversational_turn cfg strptime_ok reserve cache s
     (ParsedJson (reservation_directive
        (AList.update ''booking_option_id'' v (AList.update ''guarantee_code'' w args))))
   = conversational_turn cfg strptime_ok reserve cache s
       (ParsedJson (reservation_directive
          (AList.update ''booking_option_id'' v' (AList.update ''guarantee_code'' w' args))))"
  unfolding conversational_turn_def orchestrator_strips_directive_ids stripped_arguments ..

end
